theory Spec2Isabelle
  imports Complex_Main "HOL-Library.Sublist"
begin

section \<open>The semantic-graph engine (class WordEmbeddingVisualization)\<close>

text \<open>
  The engine is the JavaScript class \<^verbatim>\<open>WordEmbeddingVisualization\<close> of
  \<^verbatim>\<open>embedding-engine.js\<close>. Its methods mutate the fields of one controller object; the
  model passes that object around as a record and returns it updated.
\<close>

subsection \<open>JavaScript values\<close>

text \<open>
  A JavaScript number is a binary64 double: a finite double is held as the real it denotes,
  next to \<^verbatim>\<open>Infinity\<close>, \<^verbatim>\<open>-Infinity\<close> and \<^verbatim>\<open>NaN\<close>. The finite doubles are the
  reals \<open>m * 2 ^ e\<close> with \<open>|m| < 2 ^ 53\<close> and \<open>- 1074 \<le> e \<le> 971\<close>. An arithmetic
  operation gives the exact result rounded to the nearest double, ties to the even
  mantissa (\<open>round64\<close>): the spacing of the doubles around \<open>x\<close> is \<open>quantum x\<close>, 52 binary
  places below the leading bit of \<open>x\<close> and never below \<open>2 ^ - 1074\<close>, and a result of
  magnitude \<open>2 ^ 1024 - 2 ^ 970\<close> or more overflows to an infinity. There is one zero: it
  stands for \<^verbatim>\<open>+0\<close>, the only zero that \<^verbatim>\<open>normalizeData\<close> divides by (a difference
  \<^verbatim>\<open>a - a\<close>, or a maximum of such differences).
\<close>

datatype jsnum = Fin real | PInf | NInf | NaN

definition roundTiesToEven :: "real \<Rightarrow> int" where
  "roundTiesToEven y =
     (let f = \<lfloor>y\<rfloor>
      in if y - of_int f < 1 / 2 then f
         else if 1 / 2 < y - of_int f then f + 1
         else if even f then f else f + 1)"

definition quantum :: "real \<Rightarrow> real" where
  "quantum x = 2 powr of_int (max (\<lfloor>log 2 \<bar>x\<bar>\<rfloor> - 52) (- 1074))"

definition round64 :: "real \<Rightarrow> jsnum" where
  "round64 x =
     (if x = 0 then Fin 0
      else if 2 ^ 1024 - 2 ^ 970 \<le> \<bar>x\<bar> then (if x < 0 then NInf else PInf)
      else Fin (of_int (roundTiesToEven (x / quantum x)) * quantum x))"

text \<open>A real is a double when rounding leaves it as it is.\<close>

definition exact :: "real \<Rightarrow> bool" where
  "exact x = (round64 x = Fin x)"

fun js_neg :: "jsnum \<Rightarrow> jsnum" where
  "js_neg (Fin a) = Fin (- a)"
| "js_neg PInf = NInf"
| "js_neg NInf = PInf"
| "js_neg NaN = NaN"

fun js_add :: "jsnum \<Rightarrow> jsnum \<Rightarrow> jsnum" where
  "js_add NaN _ = NaN"
| "js_add _ NaN = NaN"
| "js_add (Fin a) (Fin b) = round64 (a + b)"
| "js_add PInf NInf = NaN"
| "js_add NInf PInf = NaN"
| "js_add PInf _ = PInf"
| "js_add NInf _ = NInf"
| "js_add (Fin a) PInf = PInf"
| "js_add (Fin a) NInf = NInf"

definition js_sub :: "jsnum \<Rightarrow> jsnum \<Rightarrow> jsnum" where
  "js_sub a b = js_add a (js_neg b)"

text \<open>The sign of a number that is not NaN: \<open>True\<close> for negative.\<close>

fun js_negative :: "jsnum \<Rightarrow> bool" where
  "js_negative (Fin a) = (a < 0)"
| "js_negative NInf = True"
| "js_negative _ = False"

fun js_mul :: "jsnum \<Rightarrow> jsnum \<Rightarrow> jsnum" where
  "js_mul NaN _ = NaN"
| "js_mul _ NaN = NaN"
| "js_mul (Fin a) (Fin b) = round64 (a * b)"
| "js_mul (Fin a) i = (if a = 0 then NaN else if (a < 0) = js_negative i then PInf else NInf)"
| "js_mul i (Fin b) = (if b = 0 then NaN else if js_negative i = (b < 0) then PInf else NInf)"
| "js_mul i j = (if js_negative i = js_negative j then PInf else NInf)"

fun js_div :: "jsnum \<Rightarrow> jsnum \<Rightarrow> jsnum" where
  "js_div NaN _ = NaN"
| "js_div _ NaN = NaN"
| "js_div (Fin a) (Fin b) =
     (if b = 0 then (if a = 0 then NaN else if a < 0 then NInf else PInf)
      else round64 (a / b))"
| "js_div (Fin a) _ = Fin 0"
| "js_div i (Fin b) = (if js_negative i = (b < 0) then PInf else NInf)"
| "js_div _ _ = NaN"

text \<open>\<^verbatim>\<open>Math.min\<close> and \<^verbatim>\<open>Math.max\<close>: NaN if an argument is NaN.\<close>

fun Math_min :: "jsnum \<Rightarrow> jsnum \<Rightarrow> jsnum" where
  "Math_min NaN _ = NaN"
| "Math_min _ NaN = NaN"
| "Math_min NInf _ = NInf"
| "Math_min _ NInf = NInf"
| "Math_min PInf b = b"
| "Math_min a PInf = a"
| "Math_min (Fin a) (Fin b) = Fin (min a b)"

fun Math_max :: "jsnum \<Rightarrow> jsnum \<Rightarrow> jsnum" where
  "Math_max NaN _ = NaN"
| "Math_max _ NaN = NaN"
| "Math_max PInf _ = PInf"
| "Math_max _ PInf = PInf"
| "Math_max NInf b = b"
| "Math_max a NInf = a"
| "Math_max (Fin a) (Fin b) = Fin (max a b)"

definition Math_max3 :: "jsnum \<Rightarrow> jsnum \<Rightarrow> jsnum \<Rightarrow> jsnum" where
  "Math_max3 a b c = Math_max (Math_max a b) c"

fun isFinite :: "jsnum \<Rightarrow> bool" where
  "isFinite (Fin _) = True"
| "isFinite _ = False"

text \<open>
  \<^verbatim>\<open>userData\<close> is a plain object: a list of properties. Reading a property that the
  object does not have gives \<^verbatim>\<open>undefined\<close>.
\<close>

datatype 'c jsval = Undefined | Str "'c list" | StrList "'c list list"

type_synonym 'c userData = "(string \<times> 'c jsval) list"

definition getProp :: "'c userData \<Rightarrow> string \<Rightarrow> 'c jsval" where
  "getProp ud k = (case map_of ud k of None \<Rightarrow> Undefined | Some v \<Rightarrow> v)"

text \<open>
  \<^verbatim>\<open>highlightedWords\<close> is a \<^verbatim>\<open>Set\<close> to which only strings are ever added (a word, or
  the first component of a similarity pair), so \<^verbatim>\<open>has\<close> is false on every other value.
\<close>

fun has :: "'c list set \<Rightarrow> 'c jsval \<Rightarrow> bool" where
  "has H (Str s) = (s \<in> H)"
| "has H _ = False"

subsection \<open>Strings\<close>

text \<open>
  A JavaScript string is a list of UTF-16 code units, of any type \<open>'c\<close>;
  \<^verbatim>\<open>includes\<close> is the test for a contiguous sublist. The search takes the built-in
  \<^verbatim>\<open>String.prototype.toLowerCase\<close> as a parameter. Where a theorem runs the engine on a
  concrete input, the strings are lists of \<open>char\<close>, the code units 0 to 255, and the two
  built-ins of the search box are the built-ins on these strings: \<^verbatim>\<open>toLowerCase\<close> adds
  32 to A-Z and to the capital letters U+00C0 to U+00DE other than U+00D7 and leaves every
  other such unit as it is, and \<^verbatim>\<open>trim\<close> removes the white space of this range (tab,
  line feed, vertical tab, form feed, carriage return, space, no-break space) at both ends.
\<close>

definition lower_char :: "char \<Rightarrow> char" where
  "lower_char c =
     (let n = (of_char c :: nat)
      in if (65 \<le> n \<and> n \<le> 90) \<or> (192 \<le> n \<and> n \<le> 214) \<or> (216 \<le> n \<and> n \<le> 222)
         then char_of (n + 32) else c)"

definition toLowerCase :: "string \<Rightarrow> string" where
  "toLowerCase s = map lower_char s"

fun str_includes :: "'c list \<Rightarrow> 'c list \<Rightarrow> bool" where
  "str_includes [] q = (q = [])"
| "str_includes (c # cs) q = (prefix q (c # cs) \<or> str_includes cs q)"

definition is_blank :: "char \<Rightarrow> bool" where
  "is_blank c = ((of_char c :: nat) \<in> {9, 10, 11, 12, 13, 32, 160})"

definition trim :: "string \<Rightarrow> string" where
  "trim s = rev (dropWhile is_blank (rev (dropWhile is_blank s)))"

subsection \<open>The dataset\<close>

text \<open>
  One entry of \<^verbatim>\<open>data.words\<close>: the word, its position, its category tags and its
  similarity list of pairs \<^verbatim>\<open>[name, score]\<close>. A score read from JSON is a real number.
  The lists are present in every entry (the dataset's layout), so the defaults
  \<^verbatim>\<open>wordObj.similar_words || []\<close> and \<^verbatim>\<open>wordObj.categories || []\<close> leave them as
  they are.
\<close>

datatype vec3 = Vector3 (vx: jsnum) (vy: jsnum) (vz: jsnum)

definition nonfinite_vec :: "vec3 \<Rightarrow> bool" where
  "nonfinite_vec p = (\<not> isFinite (vx p) \<and> \<not> isFinite (vy p) \<and> \<not> isFinite (vz p))"

record 'c wordObj =
  word :: "'c list"
  position :: vec3
  categories :: "'c list list"
  similar_words :: "('c list \<times> real) list"

subsection \<open>Scene objects\<close>

text \<open>
  A colour is a hex value times a scalar (\<^verbatim>\<open>new THREE.Color(hex).multiplyScalar(k)\<close>);
  \<^verbatim>\<open>color.set(hex)\<close> gives scalar 1.
\<close>

datatype color = Color (hex: nat) (scalar: real)

definition green :: nat where
  "green = 0x25D366"

definition white :: nat where
  "white = 0xffffff"

text \<open>
  A node sphere (\<^verbatim>\<open>THREE.Mesh\<close> with a \<^verbatim>\<open>MeshStandardMaterial\<close>), a label
  (\<^verbatim>\<open>THREE.Sprite\<close>) and a connection (\<^verbatim>\<open>THREE.Line\<close>), each with the properties that
  the search and hover code reads or writes. Positions of scene objects are not part of the
  model; a line keeps the two end points it was built from.
\<close>

record 'c mesh =
  m_userData :: "'c userData"
  m_emissiveIntensity :: real
  m_opacity :: real
  m_scale :: real

record 'c sprite =
  s_userData :: "'c userData"
  s_visible :: bool
  s_scale :: "real \<times> real \<times> real"
  s_color :: color
  s_opacity :: real

record 'c line =
  l_userData :: "'c userData"
  l_points :: "vec3 \<times> vec3"
  l_color :: color
  l_opacity :: real
  l_linewidth :: real

subsection \<open>Graph builder: createSemanticConnections\<close>

text \<open>
  \<^verbatim>\<open>Array.prototype.find\<close> is \<^const>\<open>List.find\<close>. For one entry \<^verbatim>\<open>[name, score]\<close>
  of the first two similarity entries of \<^verbatim>\<open>wordObj\<close>: return without a line when
  \<^verbatim>\<open>score < this.similarityThreshold\<close>, return without a line when no word of the
  dataset is \<^verbatim>\<open>name\<close>, else push one line.
\<close>

definition newLine :: "'c wordObj \<Rightarrow> 'c wordObj \<Rightarrow> 'c list \<Rightarrow> 'c line" where
  "newLine wordObj target name =
     \<lparr> l_userData = [(''source'', Str (word wordObj)), (''target'', Str name)],
       l_points = (position wordObj, position target),
       l_color = Color green 15,
       l_opacity = 0.8,
       l_linewidth = 1 \<rparr>"

definition entryLines :: "real \<Rightarrow> 'c wordObj list \<Rightarrow> 'c wordObj \<Rightarrow> 'c list \<times> real \<Rightarrow> 'c line list" where
  "entryLines threshold wd wordObj e =
     (case e of (name, score) \<Rightarrow>
        if score < threshold then []
        else (case find (\<lambda>w. word w = name) wd of
                None \<Rightarrow> []
              | Some target \<Rightarrow> [newLine wordObj target name]))"

definition wordLines :: "real \<Rightarrow> 'c wordObj list \<Rightarrow> 'c wordObj \<Rightarrow> 'c line list" where
  "wordLines threshold wd wordObj =
     concat (map (entryLines threshold wd wordObj) (take 2 (similar_words wordObj)))"

definition semanticConnections :: "real \<Rightarrow> 'c wordObj list \<Rightarrow> 'c line list" where
  "semanticConnections threshold wd = concat (map (wordLines threshold wd) wd)"

text \<open>The directed edge that a line stands for.\<close>

definition edge :: "'c line \<Rightarrow> 'c jsval \<times> 'c jsval" where
  "edge l = (getProp (l_userData l) ''source'', getProp (l_userData l) ''target'')"

definition edgeOf :: "'c list \<Rightarrow> 'c list \<Rightarrow> 'c jsval \<times> 'c jsval" where
  "edgeOf a b = (Str a, Str b)"

subsection \<open>The controller object\<close>

text \<open>
  The fields of the controller that the methods below read or write. \<open>hoveredNode\<close> is the
  index of the hovered sphere in \<open>wordNodes\<close>; \<open>sparks\<close> are the sparks that
  \<^verbatim>\<open>spawnSignal\<close> has added to the scene, each with its start and end point;
  \<open>loading\<close> says that the element \<^verbatim>\<open>#loading\<close> is displayed; \<open>console\<close> is what
  \<^verbatim>\<open>console.error\<close> has printed.
\<close>

datatype error = FetchFailed | JsonSyntaxError | TypeError

record 'c engine =
  wordNodes :: "'c mesh list"
  wordLabels :: "'c sprite list"
  connections :: "'c line list"
  wordData :: "'c wordObj list"
  highlightedWords :: "'c list set"
  searchQuery :: "'c list"
  similarityThreshold :: real
  hoveredNode :: "nat option"
  sparks :: "(vec3 \<times> vec3) list"
  loading :: bool
  console :: "error list"

definition createSemanticConnections :: "'c engine \<Rightarrow> 'c engine" where
  "createSemanticConnections st =
     st\<lparr>connections :=
          connections st @ semanticConnections (similarityThreshold st) (wordData st)\<rparr>"

subsection \<open>Coordinate normaliser: normalizeData\<close>

text \<open>
  The first loop folds every position into six running bounds that start at
  \<^verbatim>\<open>Infinity\<close> and \<^verbatim>\<open>-Infinity\<close>; then the centre and the scale are computed, with no
  test on the divisor; the second loop rewrites every position in place.
\<close>

datatype bounds =
  Bounds (minX: jsnum) (minY: jsnum) (minZ: jsnum) (maxX: jsnum) (maxY: jsnum) (maxZ: jsnum)

definition widen :: "'c wordObj \<Rightarrow> bounds \<Rightarrow> bounds" where
  "widen w b =
     Bounds (Math_min (minX b) (vx (position w)))
            (Math_min (minY b) (vy (position w)))
            (Math_min (minZ b) (vz (position w)))
            (Math_max (maxX b) (vx (position w)))
            (Math_max (maxY b) (vy (position w)))
            (Math_max (maxZ b) (vz (position w)))"

definition boundingBox :: "'c wordObj list \<Rightarrow> bounds" where
  "boundingBox words = fold widen words (Bounds PInf PInf PInf NInf NInf NInf)"

definition center :: "bounds \<Rightarrow> vec3" where
  "center b =
     Vector3 (js_div (js_add (minX b) (maxX b)) (Fin 2))
             (js_div (js_add (minY b) (maxY b)) (Fin 2))
             (js_div (js_add (minZ b) (maxZ b)) (Fin 2))"

definition extent :: "bounds \<Rightarrow> jsnum" where
  "extent b =
     Math_max3 (js_sub (maxX b) (minX b)) (js_sub (maxY b) (minY b)) (js_sub (maxZ b) (minZ b))"

definition scale :: "bounds \<Rightarrow> jsnum" where
  "scale b = js_div (Fin 500) (extent b)"

definition transform :: "vec3 \<Rightarrow> jsnum \<Rightarrow> vec3 \<Rightarrow> vec3" where
  "transform c s p =
     Vector3 (js_mul (js_sub (vx p) (vx c)) s)
             (js_mul (js_sub (vy p) (vy c)) s)
             (js_mul (js_sub (vz p) (vz c)) s)"

definition normalizeData :: "'c wordObj list \<Rightarrow> 'c wordObj list" where
  "normalizeData words =
     (let b = boundingBox words; c = center b; s = scale b
      in map (\<lambda>w. w\<lparr>position := transform c s (position w)\<rparr>) words)"

subsection \<open>Scene builder: createWordNodes, createWordLabels\<close>

text \<open>
  A sphere is created with \<^verbatim>\<open>emissiveIntensity: 0\<close>; its material sets no opacity and
  the mesh no scale, so both have the three.js defaults 1. A label sprite is created with
  scale \<^verbatim>\<open>(15, 7.5, 1)\<close>; it is visible, white and opaque (the three.js defaults), and
  no \<^verbatim>\<open>userData\<close> is given to it. \<^verbatim>\<open>createWordLabels\<close> reads
  \<^verbatim>\<open>this.wordNodes[i].position\<close>, which exists as \<^verbatim>\<open>createWordNodes\<close> has run on
  the same \<^verbatim>\<open>wordData\<close> just before.
\<close>

definition newNode :: "'c wordObj \<Rightarrow> 'c mesh" where
  "newNode wordObj =
     \<lparr> m_userData = [(''word'', Str (word wordObj)), (''categories'', StrList (categories wordObj))],
       m_emissiveIntensity = 0,
       m_opacity = 1,
       m_scale = 1 \<rparr>"

definition createWordNodes :: "'c engine \<Rightarrow> 'c engine" where
  "createWordNodes st = st\<lparr>wordNodes := wordNodes st @ map newNode (wordData st)\<rparr>"

definition newLabel :: "'c sprite" where
  "newLabel =
     \<lparr> s_userData = [], s_visible = True, s_scale = (15, 7.5, 1),
       s_color = Color white 1, s_opacity = 1 \<rparr>"

definition createWordLabels :: "'c engine \<Rightarrow> 'c engine" where
  "createWordLabels st = st\<lparr>wordLabels := map (\<lambda>wordObj. newLabel) (wordData st)\<rparr>"

subsection \<open>Dataset loader: loadWordEmbeddings\<close>

text \<open>
  What the two awaited calls give: \<^verbatim>\<open>fetch\<close> rejects, or \<^verbatim>\<open>response.json()\<close>
  rejects, or the document is parsed and \<^verbatim>\<open>data.words\<close> is a list of entries. In
  \<open>Json\<close> every entry has its position; in \<open>Parsed\<close> an entry may have none (its
  \<^verbatim>\<open>position\<close> is \<^verbatim>\<open>undefined\<close>). A document of another structure is outside the
  model.

  The whole body is inside \<^verbatim>\<open>try\<close>, and the handler is \<^verbatim>\<open>console.error(e)\<close>. The
  first statements are \<^verbatim>\<open>this.wordData = data.words\<close> and
  \<^verbatim>\<open>this.normalizeData(this.wordData)\<close>, whose first loop reads
  \<^verbatim>\<open>w.position.x\<close> of every entry before anything is written: an entry without a
  position makes it throw a \<^verbatim>\<open>TypeError\<close>, with \<open>wordData\<close> already set. The entries
  then stay in \<open>wordData\<close> as \<open>held\<close> gives them, with NaN coordinates where there is no
  position: the methods that read a position of \<open>wordData\<close> are called by the load only,
  after \<^verbatim>\<open>normalizeData\<close> has returned.

  The first component of the result is the reason with which the promise returned by the
  method is rejected, if it is; the constructor's fields are \<open>constructed\<close>, where the
  loading element is taken to be displayed.
\<close>

record 'c rawWord =
  r_word :: "'c list"
  r_position :: "vec3 option"
  r_categories :: "'c list list"
  r_similar_words :: "('c list \<times> real) list"

definition held :: "'c rawWord \<Rightarrow> 'c wordObj" where
  "held r =
     \<lparr> word = r_word r,
       position = (case r_position r of Some p \<Rightarrow> p | None \<Rightarrow> Vector3 NaN NaN NaN),
       categories = r_categories r,
       similar_words = r_similar_words r \<rparr>"

datatype 'c response =
  FetchRejected | JsonRejected | Json "'c wordObj list" | Parsed "'c rawWord list"

definition build :: "'c wordObj list \<Rightarrow> 'c engine \<Rightarrow> 'c engine" where
  "build words st =
     (let st1 = st\<lparr>wordData := normalizeData words\<rparr>;
          st2 = createWordNodes st1;
          st3 = createWordLabels st2;
          st4 = createSemanticConnections st3
      in st4\<lparr>loading := False\<rparr>)"

definition loadWordEmbeddings :: "'c response \<Rightarrow> 'c engine \<Rightarrow> error option \<times> 'c engine" where
  "loadWordEmbeddings r st =
     (case r of
        FetchRejected \<Rightarrow> (None, st\<lparr>console := console st @ [FetchFailed]\<rparr>)
      | JsonRejected \<Rightarrow> (None, st\<lparr>console := console st @ [JsonSyntaxError]\<rparr>)
      | Json words \<Rightarrow> (None, build words st)
      | Parsed entries \<Rightarrow>
          (if list_ex (\<lambda>r. r_position r = None) entries
           then (None, st\<lparr>wordData := map held entries,
                           console := console st @ [TypeError]\<rparr>)
           else (None, build (map held entries) st)))"

definition constructed :: "'c engine" where
  "constructed =
     \<lparr> wordNodes = [], wordLabels = [], connections = [], wordData = [],
       highlightedWords = {}, searchQuery = [], similarityThreshold = 0.55,
       hoveredNode = None, sparks = [], loading = True, console = [] \<rparr>"

subsection \<open>Search: performSearch, applyHighlighting, resetHighlighting\<close>

definition resetHighlighting :: "'c engine \<Rightarrow> 'c engine" where
  "resetHighlighting st =
     st\<lparr>wordNodes :=
          map (\<lambda>node. node\<lparr>m_emissiveIntensity := 1.5, m_opacity := 0.9, m_scale := 1\<rparr>)
            (wordNodes st),
        wordLabels := map (\<lambda>label. label\<lparr>s_visible := True\<rparr>) (wordLabels st),
        connections := map (\<lambda>line. line\<lparr>l_opacity := 0.4\<rparr>) (connections st)\<rparr>"

text \<open>
  \<^verbatim>\<open>applyHighlighting\<close> looks a node up by \<^verbatim>\<open>node.userData.word\<close>, a label by
  \<^verbatim>\<open>label.userData.word\<close>, and the two ends of a line by \<^verbatim>\<open>line.userData.from\<close>
  and \<^verbatim>\<open>line.userData.to\<close>.
\<close>

definition highlightNode :: "'c list set \<Rightarrow> 'c mesh \<Rightarrow> 'c mesh" where
  "highlightNode H node =
     (let match = has H (getProp (m_userData node) ''word'')
      in node\<lparr>m_emissiveIntensity := (if match then 1.5 else 0.15),
              m_opacity := (if match then 0.8 else 0.05),
              m_scale := (if match then 3.0 else 0.7)\<rparr>)"

definition highlightLabel :: "'c list set \<Rightarrow> 'c sprite \<Rightarrow> 'c sprite" where
  "highlightLabel H label = label\<lparr>s_visible := has H (getProp (s_userData label) ''word'')\<rparr>"

definition highlightLine :: "'c list set \<Rightarrow> 'c line \<Rightarrow> 'c line" where
  "highlightLine H line =
     (let match = has H (getProp (l_userData line) ''from'')
                  \<and> has H (getProp (l_userData line) ''to'')
      in line\<lparr>l_opacity := (if match then 1.0 else 0.02),
              l_linewidth := (if match then 3 else 1)\<rparr>)"

definition applyHighlighting :: "'c engine \<Rightarrow> 'c engine" where
  "applyHighlighting st =
     st\<lparr>wordNodes := map (highlightNode (highlightedWords st)) (wordNodes st),
        wordLabels := map (highlightLabel (highlightedWords st)) (wordLabels st),
        connections := map (highlightLine (highlightedWords st)) (connections st)\<rparr>"

text \<open>
  One round of the loop over \<^verbatim>\<open>wordData\<close> in \<^verbatim>\<open>performSearch\<close>, and the method;
  \<open>toLower\<close> is the built-in \<^verbatim>\<open>String.prototype.toLowerCase\<close>.
\<close>

definition matches :: "('c list \<Rightarrow> 'c list) \<Rightarrow> 'c list \<Rightarrow> 'c wordObj \<Rightarrow> bool" where
  "matches toLower query w =
     (let inWord = str_includes (toLower (word w)) query;
          inCat = list_ex (\<lambda>c. str_includes (toLower c) query) (categories w)
      in inWord \<or> inCat)"

definition addMatch ::
  "('c list \<Rightarrow> 'c list) \<Rightarrow> 'c list \<Rightarrow> 'c wordObj \<Rightarrow> 'c list set \<Rightarrow> 'c list set" where
  "addMatch toLower query w H =
     (if matches toLower query w
      then fold (\<lambda>s H'. insert (fst s) H') (similar_words w) (insert (word w) H)
      else H)"

definition performSearch :: "('c list \<Rightarrow> 'c list) \<Rightarrow> 'c engine \<Rightarrow> 'c engine" where
  "performSearch toLower st =
     (let st0 = st\<lparr>highlightedWords := {}\<rparr>;
          query = toLower (searchQuery st0)
      in if query = [] then resetHighlighting st0
         else applyHighlighting
                (st0\<lparr>highlightedWords := fold (addMatch toLower query) (wordData st0) {}\<rparr>))"

text \<open>The \<^verbatim>\<open>input\<close> listener of the search box.\<close>

definition onSearchInput :: "string \<Rightarrow> char engine \<Rightarrow> char engine" where
  "onSearchInput v st = performSearch toLowerCase (st\<lparr>searchQuery := trim (toLowerCase v)\<rparr>)"

subsection \<open>Hover: handleHover, triggerNeuralActivity, spawnSignal, resetNodeState\<close>

text \<open>
  A sphere is named by its index in \<open>wordNodes\<close> (\<^verbatim>\<open>indexOf\<close> of the object). The
  ray caster is given \<open>wordNodes\<close>, so the nearest hit, if there is one, is such an index.
\<close>

definition updateAt :: "nat \<Rightarrow> ('a \<Rightarrow> 'a) \<Rightarrow> 'a list \<Rightarrow> 'a list" where
  "updateAt i f xs = (if i < length xs then xs[i := f (xs ! i)] else xs)"

definition resetNodeState :: "nat \<Rightarrow> 'c engine \<Rightarrow> 'c engine" where
  "resetNodeState index st =
     st\<lparr>wordNodes :=
          updateAt index (\<lambda>node. node\<lparr>m_scale := 1.0, m_emissiveIntensity := 0\<rparr>) (wordNodes st),
        wordLabels :=
          updateAt index
            (\<lambda>label. label\<lparr>s_scale := (15, 7.5, 1), s_color := Color green 1, s_opacity := 0.7\<rparr>)
            (wordLabels st),
        connections :=
          map (\<lambda>line. line\<lparr>l_color := Color green 1, l_opacity := 0.4\<rparr>) (connections st)\<rparr>"

definition touches :: "'c list \<Rightarrow> 'c line \<Rightarrow> bool" where
  "touches targetWord line =
     (getProp (l_userData line) ''source'' = Str targetWord
      \<or> getProp (l_userData line) ''target'' = Str targetWord)"

definition overload :: "'c list \<Rightarrow> 'c line \<Rightarrow> 'c line" where
  "overload targetWord line =
     (if touches targetWord line
      then line\<lparr>l_color := Color green 50, l_opacity := 1.0\<rparr>
      else line\<lparr>l_color := Color green 5, l_opacity := 0.2\<rparr>)"

text \<open>
  \<^verbatim>\<open>spawnSignal(line)\<close> adds one spark that travels between the two end points of the
  line. \<^verbatim>\<open>triggerNeuralActivity\<close> first reads \<^verbatim>\<open>this.wordData[index].word\<close>, which
  throws a \<^verbatim>\<open>TypeError\<close> when \<open>wordData\<close> has no such entry.
\<close>

definition triggerNeuralActivity :: "nat \<Rightarrow> 'c engine \<Rightarrow> error option \<times> 'c engine" where
  "triggerNeuralActivity index st =
     (if index < length (wordData st)
      then (let targetWord = word (wordData st ! index)
            in (None,
                st\<lparr>connections := map (overload targetWord) (connections st),
                   sparks := sparks st
                             @ map l_points (filter (touches targetWord) (connections st))\<rparr>))
      else (Some TypeError, st))"

definition handleHover :: "nat option \<Rightarrow> 'c engine \<Rightarrow> error option \<times> 'c engine" where
  "handleHover intersects st =
     (case intersects of
        Some object \<Rightarrow>
          if hoveredNode st \<noteq> Some object
          then (let st1 = (case hoveredNode st of
                             Some h \<Rightarrow> resetNodeState h st
                           | None \<Rightarrow> st);
                    st2 = st1\<lparr>hoveredNode := Some object\<rparr>;
                    st3 = st2\<lparr>wordNodes :=
                               updateAt object
                                 (\<lambda>node. node\<lparr>m_scale := 2.0, m_emissiveIntensity := 0\<rparr>)
                                 (wordNodes st2)\<rparr>;
                    st4 = st3\<lparr>wordLabels :=
                               updateAt object
                                 (\<lambda>label. label\<lparr>s_scale := (75, 37.5, 1),
                                                 s_color := Color white 1,
                                                 s_opacity := 1.0\<rparr>)
                                 (wordLabels st3)\<rparr>
                in triggerNeuralActivity object st4)
          else (None, st)
      | None \<Rightarrow>
          (case hoveredNode st of
             Some h \<Rightarrow> (None, (resetNodeState h st)\<lparr>hoveredNode := None\<rparr>)
           | None \<Rightarrow> (None, st)))"

subsection \<open>Animation loop: animate\<close>

text \<open>
  One frame at clock value \<open>now\<close> (\<^verbatim>\<open>Date.now()\<close>, in milliseconds) with the ray
  caster's nearest hit. The frame rewrites the opacity of the connections and then calls
  \<^verbatim>\<open>handleHover\<close>; the steps in between move scenery, spheres, labels and signals and
  touch none of the fields of the model. The next frame is requested first, so the loop
  goes on after a frame that throws.
\<close>

definition pulseIntensity :: "real \<Rightarrow> real" where
  "pulseIntensity now = 0.5 + sin (now * 0.001 * 2) * 0.3"

definition breathe :: "real \<Rightarrow> 'c line \<Rightarrow> 'c line" where
  "breathe now line =
     (if l_opacity line < 1.0
      then line\<lparr>l_opacity := 0.3 + (pulseIntensity now * 0.4)\<rparr>
      else line)"

definition animate :: "real \<Rightarrow> nat option \<Rightarrow> 'c engine \<Rightarrow> error option \<times> 'c engine" where
  "animate now intersects st =
     handleHover intersects (st\<lparr>connections := map (breathe now) (connections st)\<rparr>)"

text \<open>What happens after the scene is built: frames and edits of the search box.\<close>

datatype event = Frame real "nat option" | SearchInput string

fun step :: "event \<Rightarrow> char engine \<Rightarrow> char engine" where
  "step (Frame now intersects) st = snd (animate now intersects st)"
| "step (SearchInput v) st = onSearchInput v st"

definition run :: "event list \<Rightarrow> char engine \<Rightarrow> char engine" where
  "run evs st = fold step evs st"

text \<open>No connection is invisible: every opacity is above 0.\<close>

definition edges_visible :: "'c engine \<Rightarrow> bool" where
  "edges_visible st = list_all (\<lambda>l. 0 < l_opacity l) (connections st)"

subsection \<open>The normaliser as the specification words it\<close>

text \<open>
  Raw positions as triples of reals; the bounding box, its midpoint, its largest axis
  range, the scale \<open>500 / span\<close> and the map \<open>(position - center) * scale\<close>, all in
  real arithmetic.
\<close>

definition finite3 :: "real \<times> real \<times> real \<Rightarrow> vec3" where
  "finite3 p = (case p of (a, b, c) \<Rightarrow> Vector3 (Fin a) (Fin b) (Fin c))"

definition cx :: "real \<times> real \<times> real \<Rightarrow> real" where "cx p = fst p"
definition cy :: "real \<times> real \<times> real \<Rightarrow> real" where "cy p = fst (snd p)"
definition cz :: "real \<times> real \<times> real \<Rightarrow> real" where "cz p = snd (snd p)"

definition spec_lower :: "(real \<times> real \<times> real) list \<Rightarrow> real \<times> real \<times> real" where
  "spec_lower ps = (Min (cx ` set ps), Min (cy ` set ps), Min (cz ` set ps))"

definition spec_upper :: "(real \<times> real \<times> real) list \<Rightarrow> real \<times> real \<times> real" where
  "spec_upper ps = (Max (cx ` set ps), Max (cy ` set ps), Max (cz ` set ps))"








subsection \<open>The search as the specification words it\<close>




subsection \<open>A dataset of two words\<close>

text \<open>
  Two words, the first naming the second as its neighbour with score 0.9, and the scene
  that the engine builds from them after construction.
\<close>

definition two_words :: "char wordObj list" where
  "two_words =
     [\<lparr>word = ''alpha'', position = Vector3 (Fin 0) (Fin 0) (Fin 0),
        categories = [], similar_words = [(''alps'', 0.9)]\<rparr>,
      \<lparr>word = ''alps'', position = Vector3 (Fin 10) (Fin 0) (Fin 0),
        categories = [], similar_words = []\<rparr>]"

definition two_word_scene :: "char engine" where
  "two_word_scene = snd (loadWordEmbeddings (Json two_words) constructed)"

subsection \<open>A dataset of five words\<close>

text \<open>
  The words X, Y, Z, P, Q, where X names Y, Z names X and P names Q, each with score 0.9;
  the scene built from them has the edges X \<open>\<rightarrow>\<close> Y, Z \<open>\<rightarrow>\<close> X and P \<open>\<rightarrow>\<close> Q.
\<close>

definition five_words :: "char wordObj list" where
  "five_words =
     [\<lparr>word = ''X'', position = Vector3 (Fin 0) (Fin 0) (Fin 0),
        categories = [], similar_words = [(''Y'', 0.9)]\<rparr>,
      \<lparr>word = ''Y'', position = Vector3 (Fin 10) (Fin 0) (Fin 0),
        categories = [], similar_words = []\<rparr>,
      \<lparr>word = ''Z'', position = Vector3 (Fin 0) (Fin 10) (Fin 0),
        categories = [], similar_words = [(''X'', 0.9)]\<rparr>,
      \<lparr>word = ''P'', position = Vector3 (Fin 0) (Fin 0) (Fin 10),
        categories = [], similar_words = [(''Q'', 0.9)]\<rparr>,
      \<lparr>word = ''Q'', position = Vector3 (Fin 10) (Fin 10) (Fin 10),
        categories = [], similar_words = []\<rparr>]"

definition five_word_scene :: "char engine" where
  "five_word_scene = snd (loadWordEmbeddings (Json five_words) constructed)"

section \<open>Rounding to binary64\<close>

text \<open>
  A real \<open>m * 2 ^ e\<close> with \<open>|m| < 2 ^ 53\<close> and \<open>- 1074 \<le> e \<le> 971\<close> is a double:
  rounding returns it. The lemmas after it evaluate \<open>round64\<close> on the numbers that the
  examples below meet.
\<close>

lemma roundTiesToEven_of_int: "roundTiesToEven (of_int n) = n"
  by (simp add: roundTiesToEven_def)

lemma powr_nat_int: "0 \<le> k \<Longrightarrow> (2::real) powr of_int k = of_int (2 ^ nat k)"
  by (simp add: powr_real_of_int)

lemma round64_dyadic:
  assumes m: "\<bar>m\<bar> < 2 ^ 53" and lo: "- 1074 \<le> e" and hi: "e \<le> 971"
  shows "round64 (of_int m * 2 powr of_int e) = Fin (of_int m * 2 powr of_int e)"
proof (cases "m = 0")
  case True
  then show ?thesis by (simp add: round64_def)
next
  case False
  let ?x = "of_int m * 2 powr of_int e :: real"
  have x0: "?x \<noteq> 0" using False by simp
  have absx: "\<bar>?x\<bar> = of_int \<bar>m\<bar> * 2 powr of_int e" by (simp add: abs_mult)
  have m1: "(1::real) \<le> of_int \<bar>m\<bar>" using False by (simp add: of_int_abs[symmetric] del: of_int_abs) 
  have m2: "of_int \<bar>m\<bar> \<le> (2 ^ 53 - 1 :: real)"
  proof -
    have "\<bar>m\<bar> \<le> 2 ^ 53 - 1" using m by simp
    then have "(of_int \<bar>m\<bar> :: real) \<le> of_int (2 ^ 53 - 1)" by (rule of_int_le_iff[THEN iffD2])
    then show ?thesis by simp
  qed
  have e971: "(2::real) powr of_int e \<le> 2 powr of_int (971::int)"
    using hi by (intro powr_mono) simp_all
  have p971: "(2::real) powr of_int (971::int) = 2 ^ 971"
    using powr_realpow[of "2::real" 971] by simp
  have "\<bar>?x\<bar> \<le> (2 ^ 53 - 1) * 2 powr of_int (971::int)"
    unfolding absx using m2 e971 by (intro mult_mono) simp_all
  also have "\<dots> = (2 ^ 53 - 1) * 2 ^ 971"
    by (simp only: p971)
  also have "\<dots> < (2 ^ 1024 - 2 ^ 970 :: real)" by simp
  finally have small: "\<not> 2 ^ 1024 - 2 ^ 970 \<le> \<bar>?x\<bar>" by simp
  define k where "k = max (\<lfloor>log 2 \<bar>?x\<bar>\<rfloor> - 52) (- 1074)"
  have "\<bar>?x\<bar> < 2 ^ 53 * 2 powr of_int e"
    unfolding absx using m2 by (intro mult_strict_right_mono) simp_all
  also have "\<dots> = 2 powr (53 + of_int e)"
    using powr_realpow[of 2 53] by (simp add: powr_add)
  finally have "log 2 \<bar>?x\<bar> < 53 + of_int e"
    using x0 by (subst log_less_iff) simp_all
  then have "\<lfloor>log 2 \<bar>?x\<bar>\<rfloor> < 53 + e" by linarith
  then have ke: "k \<le> e" using lo by (simp add: k_def)
  define N where "N = m * 2 ^ nat (e - k)"
  have q: "quantum ?x = 2 powr of_int k" by (simp add: quantum_def k_def)
  have pk: "(2::real) powr of_int (e - k) = of_int (2 ^ nat (e - k))"
    using ke by (intro powr_nat_int) simp
  have spl: "(2::real) powr of_int e = 2 powr of_int (e - k) * 2 powr of_int k"
    by (simp add: powr_add[symmetric])
  have "?x / 2 powr of_int k = of_int m * 2 powr of_int (e - k)"
    by (simp add: spl)
  also have "\<dots> = of_int N"
    by (simp only: pk N_def of_int_mult)
  finally have dv: "?x / quantum ?x = of_int N" by (simp only: q)
  have "of_int N * quantum ?x = of_int m * (2 powr of_int (e - k) * 2 powr of_int k)"
    by (simp only: pk N_def of_int_mult q mult.assoc)
  also have "\<dots> = ?x" by (simp only: spl)
  finally have bk: "of_int N * quantum ?x = ?x" .
  show ?thesis
    using x0 small by (simp only: round64_def dv roundTiesToEven_of_int bk if_False)
qed

lemma round64_of_int: "\<bar>n\<bar> < 2 ^ 53 \<Longrightarrow> round64 (of_int n) = Fin (of_int n)"
  using round64_dyadic[of n 0] by simp

lemma round64_zero: "round64 0 = Fin 0"
  by (simp add: round64_def)

lemma round64_one: "round64 1 = Fin 1"
  using round64_of_int[of 1] by simp

lemma round64_numeral:
  "(numeral k :: int) < 2 ^ 53 \<Longrightarrow> round64 (numeral k) = Fin (numeral k)"
  using round64_of_int[of "numeral k"] by simp

lemma round64_neg_numeral:
  "(numeral k :: int) < 2 ^ 53 \<Longrightarrow> round64 (- numeral k) = Fin (- numeral k)"
  using round64_of_int[of "- numeral k"] by simp

lemma round64_half_numeral:
  "(numeral k :: int) < 2 ^ 53 \<Longrightarrow> round64 (numeral k / 2) = Fin (numeral k / 2)"
  using round64_dyadic[of "numeral k" "-1"] by (simp add: powr_minus field_simps)



lemma round64_overflow: "round64 (2 ^ 1024) = PInf"
  by (simp add: round64_def)


lemmas round64_simps = round64_zero round64_one round64_numeral round64_neg_numeral
  round64_half_numeral

section \<open>Evaluating the engine on the two small datasets\<close>

lemmas load_defs = loadWordEmbeddings_def build_def constructed_def normalizeData_def boundingBox_def
  widen_def center_def scale_def extent_def Math_max3_def js_sub_def transform_def
  createWordNodes_def createWordLabels_def createSemanticConnections_def
  semanticConnections_def wordLines_def entryLines_def newLine_def newNode_def newLabel_def Let_def
  round64_simps

lemmas search_defs = onSearchInput_def performSearch_def applyHighlighting_def resetHighlighting_def
  addMatch_def matches_def toLowerCase_def lower_char_def trim_def is_blank_def
  highlightNode_def highlightLabel_def highlightLine_def getProp_def Let_def

lemmas hover_defs = handleHover_def triggerNeuralActivity_def resetNodeState_def updateAt_def
  overload_def touches_def getProp_def Let_def

lemma two_word_scene_eq:
  "two_word_scene
   = \<lparr> wordNodes =
        [\<lparr>m_userData = [(''word'', Str ''alpha''), (''categories'', StrList [])],
          m_emissiveIntensity = 0, m_opacity = 1, m_scale = 1\<rparr>,
         \<lparr>m_userData = [(''word'', Str ''alps''), (''categories'', StrList [])],
          m_emissiveIntensity = 0, m_opacity = 1, m_scale = 1\<rparr>],
       wordLabels =
        [\<lparr>s_userData = [], s_visible = True, s_scale = (15, 7.5, 1),
          s_color = Color white 1, s_opacity = 1\<rparr>,
         \<lparr>s_userData = [], s_visible = True, s_scale = (15, 7.5, 1),
          s_color = Color white 1, s_opacity = 1\<rparr>],
       connections =
        [\<lparr>l_userData = [(''source'', Str ''alpha''), (''target'', Str ''alps'')],
          l_points = (Vector3 (Fin (-250)) (Fin 0) (Fin 0), Vector3 (Fin 250) (Fin 0) (Fin 0)),
          l_color = Color green 15, l_opacity = 0.8, l_linewidth = 1\<rparr>],
       wordData =
        [\<lparr>word = ''alpha'', position = Vector3 (Fin (-250)) (Fin 0) (Fin 0),
              categories = [], similar_words = [(''alps'', 0.9)]\<rparr>,
         \<lparr>word = ''alps'', position = Vector3 (Fin 250) (Fin 0) (Fin 0),
              categories = [], similar_words = []\<rparr>],
       highlightedWords = {}, searchQuery = [], similarityThreshold = 0.55,
       hoveredNode = None, sparks = [], loading = False, console = [] \<rparr>"
  by (simp add: two_word_scene_def two_words_def load_defs)

lemma searched_scene_eq:
  "onSearchInput ''al'' two_word_scene
   = \<lparr> wordNodes =
        [\<lparr>m_userData = [(''word'', Str ''alpha''), (''categories'', StrList [])],
          m_emissiveIntensity = 1.5, m_opacity = 0.8, m_scale = 3\<rparr>,
         \<lparr>m_userData = [(''word'', Str ''alps''), (''categories'', StrList [])],
          m_emissiveIntensity = 1.5, m_opacity = 0.8, m_scale = 3\<rparr>],
       wordLabels =
        [\<lparr>s_userData = [], s_visible = False, s_scale = (15, 7.5, 1),
          s_color = Color white 1, s_opacity = 1\<rparr>,
         \<lparr>s_userData = [], s_visible = False, s_scale = (15, 7.5, 1),
          s_color = Color white 1, s_opacity = 1\<rparr>],
       connections =
        [\<lparr>l_userData = [(''source'', Str ''alpha''), (''target'', Str ''alps'')],
          l_points = (Vector3 (Fin (-250)) (Fin 0) (Fin 0), Vector3 (Fin 250) (Fin 0) (Fin 0)),
          l_color = Color green 15, l_opacity = 0.02, l_linewidth = 1\<rparr>],
       wordData =
        [\<lparr>word = ''alpha'', position = Vector3 (Fin (-250)) (Fin 0) (Fin 0),
              categories = [], similar_words = [(''alps'', 0.9)]\<rparr>,
         \<lparr>word = ''alps'', position = Vector3 (Fin 250) (Fin 0) (Fin 0),
              categories = [], similar_words = []\<rparr>],
       highlightedWords = {''alpha'', ''alps''}, searchQuery = ''al'', similarityThreshold = 0.55,
       hoveredNode = None, sparks = [], loading = False, console = [] \<rparr>"
  unfolding two_word_scene_eq by (simp add: search_defs insert_commute)


section \<open>Graph builder\<close>

lemma find_word_None: "find (\<lambda>w. word w = name) wd = None \<longleftrightarrow> name \<notin> word ` set wd"
  by (auto simp: find_None_iff)

lemma entryLines_edges:
  "map edge (entryLines thr wd w e) =
     (if thr \<le> snd e \<and> fst e \<in> word ` set wd then [edgeOf (word w) (fst e)] else [])"
  by (cases e) (auto simp: entryLines_def edge_def edgeOf_def newLine_def getProp_def find_word_None
        split: option.splits)

lemma concat_map_if_filter:
  "concat (map (\<lambda>e. if P e then [f e] else []) xs) = map f (filter P xs)"
  by (induction xs) auto

lemma wordLines_edges:
  "map edge (wordLines thr wd w) =
     map (\<lambda>e. edgeOf (word w) (fst e))
       (filter (\<lambda>e. thr \<le> snd e \<and> fst e \<in> word ` set wd) (take 2 (similar_words w)))"
  unfolding wordLines_def map_concat map_map comp_def entryLines_edges
  by (rule concat_map_if_filter)

lemma wordLines_length: "length (wordLines thr wd w) \<le> 2"
proof -
  have "length (wordLines thr wd w) = length (map edge (wordLines thr wd w))" by simp
  also have "\<dots> \<le> length (take 2 (similar_words w))"
    unfolding wordLines_edges by (simp del: length_take)
  also have "\<dots> \<le> 2" by simp
  finally show ?thesis .
qed

lemma concat_length_bound:
  "(\<And>x. length (f x) \<le> k) \<Longrightarrow> length (concat (map f xs)) \<le> k * length xs"
proof (induction xs)
  case Nil
  then show ?case by simp
next
  case (Cons a xs)
  have "length (f a) \<le> k" by (rule Cons.prems)
  moreover have "length (concat (map f xs)) \<le> k * length xs" by (rule Cons.IH) (rule Cons.prems)
  ultimately show ?case by simp
qed

lemma semanticConnections_length: "length (semanticConnections thr wd) \<le> 2 * length wd"
  unfolding semanticConnections_def by (rule concat_length_bound) (rule wordLines_length)

lemma wordLines_source:
  "l \<in> set (wordLines thr wd w) \<Longrightarrow> fst (edge l) = Str (word w)"
proof -
  assume "l \<in> set (wordLines thr wd w)"
  then have "edge l \<in> set (map edge (wordLines thr wd w))" by simp
  then show ?thesis unfolding wordLines_edges by (auto simp: edgeOf_def)
qed

lemma semanticConnections_origin:
  assumes "l \<in> set (semanticConnections thr wd)"
  shows "\<exists>w \<in> set wd. \<exists>e \<in> set (take 2 (similar_words w)).
           thr \<le> snd e \<and> fst e \<in> word ` set wd \<and> edge l = edgeOf (word w) (fst e)"
proof -
  from assms obtain w where w: "w \<in> set wd" and l: "l \<in> set (wordLines thr wd w)"
    by (auto simp: semanticConnections_def)
  from l have "edge l \<in> set (map edge (wordLines thr wd w))" by simp
  then obtain e where "e \<in> set (take 2 (similar_words w))" "thr \<le> snd e"
      "fst e \<in> word ` set wd" "edge l = edgeOf (word w) (fst e)"
    unfolding wordLines_edges by auto
  with w show ?thesis by blast
qed

lemma filter_concat_other:
  "(\<And>x. x \<in> set xs \<Longrightarrow> x \<noteq> w \<Longrightarrow> filter P (f x) = []) \<Longrightarrow> w \<notin> set xs
     \<Longrightarrow> filter P (concat (map f xs)) = []"
  by (induction xs) auto

lemma filter_concat_single:
  assumes "distinct xs" "w \<in> set xs"
    and "\<And>x. x \<in> set xs \<Longrightarrow> x \<noteq> w \<Longrightarrow> filter P (f x) = []"
  shows "filter P (concat (map f xs)) = filter P (f w)"
  using assms
proof (induction xs)
  case Nil
  then show ?case by simp
next
  case (Cons a xs)
  show ?case
  proof (cases "a = w")
    case True
    with Cons.prems have "w \<notin> set xs" by simp
    moreover have "\<And>x. x \<in> set xs \<Longrightarrow> x \<noteq> w \<Longrightarrow> filter P (f x) = []"
      using Cons.prems(3) by simp
    ultimately have "filter P (concat (map f xs)) = []" by (rule filter_concat_other[rotated])
    with True show ?thesis by simp
  next
    case False
    with Cons.prems have "w \<in> set xs" "distinct xs" by auto
    moreover have "\<And>x. x \<in> set xs \<Longrightarrow> x \<noteq> w \<Longrightarrow> filter P (f x) = []"
      using Cons.prems(3) by simp
    ultimately have "filter P (concat (map f xs)) = filter P (f w)" by (intro Cons.IH) auto
    moreover have "filter P (f a) = []" using Cons.prems(3)[of a] False by simp
    ultimately show ?thesis by simp
  qed
qed

lemma out_edges_of_word:
  assumes d: "distinct (map word wd)" and w: "w \<in> set wd"
  shows "filter (\<lambda>l. fst (edge l) = Str (word w)) (semanticConnections thr wd) = wordLines thr wd w"
proof -
  let ?P = "\<lambda>l. fst (edge l) = Str (word w)"
  have dw: "distinct wd" using d by (simp add: distinct_map)
  have other: "filter ?P (wordLines thr wd v) = []" if "v \<in> set wd" "v \<noteq> w" for v
  proof -
    have "word v \<noteq> word w" using d that w by (auto simp: distinct_map inj_on_def)
    then show ?thesis by (auto simp: filter_empty_conv dest: wordLines_source)
  qed
  have "filter ?P (semanticConnections thr wd) = filter ?P (wordLines thr wd w)"
    unfolding semanticConnections_def using dw w other by (rule filter_concat_single)
  also have "\<dots> = wordLines thr wd w"
    by (auto simp: filter_id_conv dest: wordLines_source)
  finally show ?thesis .
qed


lemma scenario_A_out_edges:
  "filter (\<lambda>e. fst e = Str ''A'')
     (map edge (semanticConnections 0.55
        [\<lparr>word = ''A'', position = pa, categories = ca,
           similar_words = [(''B'', 0.90), (''C'', 0.50)]\<rparr>,
         \<lparr>word = ''B'', position = pb, categories = cb, similar_words = sb\<rparr>,
         \<lparr>word = ''C'', position = pc, categories = cc, similar_words = sc\<rparr>]))
   = [edgeOf ''A'' ''B'']"
proof -
  let ?A = "\<lparr>word = ''A'', position = pa, categories = ca,
           similar_words = [(''B'', 0.90), (''C'', 0.50)]\<rparr>"
  let ?wd = "[?A,
         \<lparr>word = ''B'', position = pb, categories = cb, similar_words = sb\<rparr>,
         \<lparr>word = ''C'', position = pc, categories = cc, similar_words = sc\<rparr>]"
  have "filter (\<lambda>l. fst (edge l) = Str (word ?A)) (semanticConnections 0.55 ?wd)
          = wordLines 0.55 ?wd ?A"
    by (rule out_edges_of_word) simp_all
  then have "filter (\<lambda>e. fst e = Str ''A'') (map edge (semanticConnections 0.55 ?wd))
          = map edge (wordLines 0.55 ?wd ?A)"
    by (simp add: filter_map comp_def)
  also have "\<dots> = [edgeOf ''A'' ''B'']"
    unfolding wordLines_edges by simp
  finally show ?thesis .
qed

lemma scenario_A_graph:
  "map edge (semanticConnections 0.55
        [\<lparr>word = ''A'', position = pa, categories = ca,
           similar_words = [(''B'', 0.90), (''C'', 0.50)]\<rparr>,
         \<lparr>word = ''B'', position = pb, categories = cb, similar_words = []\<rparr>,
         \<lparr>word = ''C'', position = pc, categories = cc, similar_words = []\<rparr>])
   = [edgeOf ''A'' ''B'']"
  unfolding semanticConnections_def map_concat map_map comp_def wordLines_edges by simp

text \<open>
  Claim C1. For every entry \<open>w\<close> of the dataset, \<^verbatim>\<open>createSemanticConnections\<close> looks
  at the first two entries of the similarity list of \<open>w\<close> only and pushes one line from
  \<open>w\<close> to the named neighbour for exactly those entries whose score is at least the
  threshold and whose name is a word of the dataset; an entry that names an unknown word
  gives no line and stops nothing. So a word has at most two lines (when the words of the
  dataset are distinct, the lines whose source is the word of \<open>w\<close> are the lines pushed
  for \<open>w\<close>), every line comes from a score at or above the threshold, and there are at
  most \<open>2 * |nodes|\<close> lines. With the three words A, B, C, the list
  \<open>[(B, 0.90), (C, 0.50)]\<close> for A and the threshold 0.55, the only edge from A is
  A \<open>\<rightarrow>\<close> B, and it is the only edge of the graph when B and C list nothing.
\<close>

theorem createSemanticConnections_edges:
  "connections (createSemanticConnections st)
     = connections st @ semanticConnections (similarityThreshold st) (wordData st)
   \<and> (\<forall>w. map edge (wordLines thr wd w) =
          map (\<lambda>e. edgeOf (word w) (fst e))
            (filter (\<lambda>e. thr \<le> snd e \<and> fst e \<in> word ` set wd) (take 2 (similar_words w))))
   \<and> (\<forall>w. length (wordLines thr wd w) \<le> 2)
   \<and> (distinct (map word wd) \<longrightarrow>
        (\<forall>w \<in> set wd.
           filter (\<lambda>l. fst (edge l) = Str (word w)) (semanticConnections thr wd)
             = wordLines thr wd w))
   \<and> (distinct (map word wd) \<longrightarrow>
        (\<forall>w \<in> set wd.
           length (filter (\<lambda>l. fst (edge l) = Str (word w)) (semanticConnections thr wd))
             \<le> 2))
   \<and> (\<forall>l \<in> set (semanticConnections thr wd).
         \<exists>w \<in> set wd. \<exists>e \<in> set (take 2 (similar_words w)).
           thr \<le> snd e \<and> fst e \<in> word ` set wd \<and> edge l = edgeOf (word w) (fst e))
   \<and> length (semanticConnections thr wd) \<le> 2 * length wd
   \<and> (\<forall>pa pb pc ca cb cc sb sc.
         filter (\<lambda>e. fst e = Str ''A'')
           (map edge (semanticConnections 0.55
              [\<lparr>word = ''A'', position = pa, categories = ca,
                 similar_words = [(''B'', 0.90), (''C'', 0.50)]\<rparr>,
               \<lparr>word = ''B'', position = pb, categories = cb, similar_words = sb\<rparr>,
               \<lparr>word = ''C'', position = pc, categories = cc, similar_words = sc\<rparr>]))
         = [edgeOf ''A'' ''B''])
   \<and> (\<forall>pa pb pc ca cb cc.
         map edge (semanticConnections 0.55
              [\<lparr>word = ''A'', position = pa, categories = ca,
                 similar_words = [(''B'', 0.90), (''C'', 0.50)]\<rparr>,
               \<lparr>word = ''B'', position = pb, categories = cb, similar_words = []\<rparr>,
               \<lparr>word = ''C'', position = pc, categories = cc, similar_words = []\<rparr>])
         = [edgeOf ''A'' ''B''])"
proof (intro conjI allI impI ballI)
  show "connections (createSemanticConnections st)
     = connections st @ semanticConnections (similarityThreshold st) (wordData st)"
    by (simp add: createSemanticConnections_def)
qed (simp_all only: wordLines_edges wordLines_length out_edges_of_word
       semanticConnections_origin semanticConnections_length scenario_A_out_edges scenario_A_graph)

theorem createSemanticConnections_edges_witness:
  "distinct (map word
      [\<lparr>word = ''A'', position = Vector3 (Fin 0) (Fin 0) (Fin 0), categories = [],
         similar_words = [(''B'', 0.90), (''C'', 0.50), (''B'', 0.95)]\<rparr>,
       \<lparr>word = ''B'', position = Vector3 (Fin 1) (Fin 0) (Fin 0), categories = [],
         similar_words = [(''Z'', 0.99), (''A'', 0.55)]\<rparr>])
   \<and> map edge (semanticConnections 0.55
      [\<lparr>word = ''A'', position = Vector3 (Fin 0) (Fin 0) (Fin 0), categories = [],
         similar_words = [(''B'', 0.90), (''C'', 0.50), (''B'', 0.95)]\<rparr>,
       \<lparr>word = ''B'', position = Vector3 (Fin 1) (Fin 0) (Fin 0), categories = [],
         similar_words = [(''Z'', 0.99), (''A'', 0.55)]\<rparr>])
     = [edgeOf ''A'' ''B'', edgeOf ''B'' ''A'']
   \<and> map edge (filter (\<lambda>l. fst (edge l) = Str ''A'') (semanticConnections 0.55
      [\<lparr>word = ''A'', position = Vector3 (Fin 0) (Fin 0) (Fin 0), categories = [],
         similar_words = [(''B'', 0.90), (''C'', 0.50), (''B'', 0.95)]\<rparr>,
       \<lparr>word = ''B'', position = Vector3 (Fin 1) (Fin 0) (Fin 0), categories = [],
         similar_words = [(''Z'', 0.99), (''A'', 0.55)]\<rparr>]))
     = [edgeOf ''A'' ''B'']"
proof -
  let ?A = "\<lparr>word = ''A'', position = Vector3 (Fin 0) (Fin 0) (Fin 0), categories = [],
         similar_words = [(''B'', 0.90), (''C'', 0.50), (''B'', 0.95)]\<rparr>"
  let ?B = "\<lparr>word = ''B'', position = Vector3 (Fin 1) (Fin 0) (Fin 0), categories = [],
         similar_words = [(''Z'', 0.99), (''A'', 0.55)]\<rparr>"
  note t = createSemanticConnections_edges [of "constructed :: char engine" "0.55" "[?A, ?B]"]
  have d: "distinct (map word [?A, ?B])" by simp
  have e: "map edge (wordLines 0.55 [?A, ?B] w) =
          map (\<lambda>e. edgeOf (word w) (fst e))
            (filter (\<lambda>e. 0.55 \<le> snd e \<and> fst e \<in> word ` set [?A, ?B]) (take 2 (similar_words w)))"
    for w using t by blast
  have all: "map edge (semanticConnections 0.55 [?A, ?B]) = [edgeOf ''A'' ''B'', edgeOf ''B'' ''A'']"
    unfolding semanticConnections_def map_concat map_map comp_def e by simp
  have "filter (\<lambda>l. fst (edge l) = Str (word ?A)) (semanticConnections 0.55 [?A, ?B])
             = wordLines 0.55 [?A, ?B] ?A"
    using t d by simp
  then have "map edge (filter (\<lambda>l. fst (edge l) = Str ''A'') (semanticConnections 0.55 [?A, ?B]))
     = map edge (wordLines 0.55 [?A, ?B] ?A)" by simp
  also have "\<dots> = [edgeOf ''A'' ''B'']" unfolding e by simp
  finally show ?thesis using d all by blast
qed

section \<open>Coordinate normaliser\<close>

lemma fold_widen_finite:
  "map position words = map finite3 ps \<Longrightarrow>
   fold widen words (Bounds (Fin a) (Fin b) (Fin c) (Fin d) (Fin e) (Fin f)) =
     Bounds (Fin (fold min (map cx ps) a)) (Fin (fold min (map cy ps) b))
            (Fin (fold min (map cz ps) c)) (Fin (fold max (map cx ps) d))
            (Fin (fold max (map cy ps) e)) (Fin (fold max (map cz ps) f))"
proof (induction words arbitrary: ps a b c d e f)
  case Nil
  then show ?case by simp
next
  case (Cons w words)
  then obtain p ps' where ps: "ps = p # ps'" and w: "position w = finite3 p"
    and rest: "map position words = map finite3 ps'"
    by (cases ps) auto
  obtain x y z where p: "p = (x, y, z)" by (cases p)
  have "widen w (Bounds (Fin a) (Fin b) (Fin c) (Fin d) (Fin e) (Fin f)) =
          Bounds (Fin (min a x)) (Fin (min b y)) (Fin (min c z))
                 (Fin (max d x)) (Fin (max e y)) (Fin (max f z))"
    by (simp add: widen_def w p finite3_def)
  then show ?case
    by (simp add: ps p Cons.IH[OF rest] cx_def cy_def cz_def min.commute max.commute)
qed

lemma boundingBox_finite:
  assumes "map position words = map finite3 ps" "ps \<noteq> []"
  shows "boundingBox words =
     Bounds (Fin (cx (spec_lower ps))) (Fin (cy (spec_lower ps))) (Fin (cz (spec_lower ps)))
            (Fin (cx (spec_upper ps))) (Fin (cy (spec_upper ps))) (Fin (cz (spec_upper ps)))"
proof -
  from assms obtain p ps' w ws where ps: "ps = p # ps'" and ws: "words = w # ws"
    and w: "position w = finite3 p" and rest: "map position ws = map finite3 ps'"
    by (cases ps; cases words) auto
  obtain x y z where p: "p = (x, y, z)" by (cases p)
  have first: "widen w (Bounds PInf PInf PInf NInf NInf NInf) =
      Bounds (Fin x) (Fin y) (Fin z) (Fin x) (Fin y) (Fin z)"
    by (simp add: widen_def w p finite3_def)
  have mn: "fold min (map g ps') (g p) = Min (g ` set ps)" for g :: "real \<times> real \<times> real \<Rightarrow> real"
    unfolding ps using Min.set_eq_fold[of "g p" "map g ps'"] by simp
  have mx: "fold max (map g ps') (g p) = Max (g ` set ps)" for g :: "real \<times> real \<times> real \<Rightarrow> real"
    unfolding ps using Max.set_eq_fold[of "g p" "map g ps'"] by simp
  have "boundingBox words =
      Bounds (Fin (fold min (map cx ps') (cx p))) (Fin (fold min (map cy ps') (cy p)))
            (Fin (fold min (map cz ps') (cz p))) (Fin (fold max (map cx ps') (cx p)))
            (Fin (fold max (map cy ps') (cy p))) (Fin (fold max (map cz ps') (cz p)))"
    unfolding boundingBox_def ws by (simp add: first fold_widen_finite[OF rest] p cx_def cy_def cz_def)
  then show ?thesis
    unfolding mn mx by (simp add: spec_lower_def spec_upper_def cx_def cy_def cz_def)
qed



























section \<open>The degenerate bounding box\<close>

lemma same_position_list:
  assumes "\<forall>w \<in> set words. position w = finite3 p"
  shows "map position words = map finite3 (replicate (length words) p)"
  using assms by (induction words) auto

lemma spec_bounds_replicate:
  assumes "0 < n"
  shows "spec_lower (replicate n p) = p" "spec_upper (replicate n p) = p"
  using assms by (simp_all add: spec_lower_def spec_upper_def cx_def cy_def cz_def)

lemma js_mul_PInf: "\<not> isFinite (js_mul v PInf)"
  by (cases v) simp_all

lemma load_Json:
  "loadWordEmbeddings (Json words) st =
     (None, st\<lparr>wordData := normalizeData words,
               wordNodes := wordNodes st @ map newNode (normalizeData words),
               wordLabels := map (\<lambda>w. newLabel) (normalizeData words),
               connections := connections st
                  @ semanticConnections (similarityThreshold st) (normalizeData words),
               loading := False\<rparr>)"
  by (simp add: loadWordEmbeddings_def build_def createWordNodes_def createWordLabels_def
        createSemanticConnections_def Let_def)

lemma degenerate_box:
  assumes "words \<noteq> []" "\<forall>w \<in> set words. position w = Vector3 (Fin a) (Fin b) (Fin c)"
  shows "boundingBox words = Bounds (Fin a) (Fin b) (Fin c) (Fin a) (Fin b) (Fin c)"
    and "extent (boundingBox words) = Fin 0"
    and "scale (boundingBox words) = PInf"
proof -
  let ?ps = "replicate (length words) (a, b, c)"
  have n: "0 < length words" using assms(1) by simp
  have "\<forall>w \<in> set words. position w = finite3 (a, b, c)"
    using assms(2) by (simp add: finite3_def)
  then have pos: "map position words = map finite3 ?ps" by (rule same_position_list)
  have ne: "?ps \<noteq> []" using assms(1) by simp
  show bb: "boundingBox words = Bounds (Fin a) (Fin b) (Fin c) (Fin a) (Fin b) (Fin c)"
    using boundingBox_finite[OF pos ne]
    by (simp add: spec_bounds_replicate[OF n] cx_def cy_def cz_def)
  show s0: "extent (boundingBox words) = Fin 0"
    by (simp add: bb extent_def Math_max3_def js_sub_def round64_zero)
  show "scale (boundingBox words) = PInf"
    by (simp add: scale_def s0)
qed

lemma degenerate_nonfinite:
  assumes "words \<noteq> []" "\<forall>w \<in> set words. position w = Vector3 (Fin a) (Fin b) (Fin c)"
  shows "list_all nonfinite_vec (map position (normalizeData words))"
  by (simp add: normalizeData_def Let_def degenerate_box(3)[OF assms] list_all_iff
      nonfinite_vec_def transform_def js_mul_PInf)

lemma degenerate_NaN:
  assumes "words \<noteq> []" "\<forall>w \<in> set words. position w = Vector3 (Fin a) (Fin b) (Fin c)"
    and "exact a" "exact (a + a)" "exact b" "exact (b + b)" "exact c" "exact (c + c)"
  shows "map position (normalizeData words) = replicate (length words) (Vector3 NaN NaN NaN)"
proof -
  have half: "(t + t) / 2 = t" for t :: real by simp
  have ce: "center (boundingBox words) = Vector3 (Fin a) (Fin b) (Fin c)"
    using assms(3-8)
    by (simp add: degenerate_box(1)[OF assms(1,2)] center_def exact_def half)
  have tr: "transform (Vector3 (Fin a) (Fin b) (Fin c)) PInf (Vector3 (Fin a) (Fin b) (Fin c))
              = Vector3 NaN NaN NaN"
    by (simp add: transform_def js_sub_def round64_zero)
  have "map position (normalizeData words)
          = map (\<lambda>w. transform (Vector3 (Fin a) (Fin b) (Fin c)) PInf (position w)) words"
    by (simp add: normalizeData_def Let_def ce degenerate_box(3)[OF assms(1,2)] comp_def)
  also have "\<dots> = map (\<lambda>w. Vector3 NaN NaN NaN) words"
    using assms(2) by (intro map_cong) (simp_all add: tr)
  also have "\<dots> = replicate (length words) (Vector3 NaN NaN NaN)"
    by (simp add: map_replicate_const)
  finally show ?thesis .
qed

text \<open>
  Claim C3, as the code has it. \<^verbatim>\<open>normalizeData\<close> has no test for a degenerate
  bounding box and reports no error. When all the nodes of a dataset share one finite
  position, the largest axis range is 0, the scale is \<open>500 / 0 = Infinity\<close> and no
  coordinate of the result is finite. Where the shared coordinate and twice the coordinate
  are doubles (the sum of the two bounds does not overflow), the centre is the coordinate
  itself and the result is \<open>0 * Infinity = NaN\<close>; otherwise the result is an infinity or
  NaN. The load goes on to its end: nothing is thrown, nothing is logged and the loading
  element is hidden.
\<close>

theorem normalizeData_unguarded:
  "words \<noteq> [] \<and> (\<forall>w \<in> set words. position w = Vector3 (Fin a) (Fin b) (Fin c)) \<longrightarrow>
      extent (boundingBox words) = Fin 0
      \<and> scale (boundingBox words) = PInf
      \<and> list_all nonfinite_vec (map position (normalizeData words))
      \<and> (exact a \<and> exact (a + a) \<and> exact b \<and> exact (b + b) \<and> exact c \<and> exact (c + c) \<longrightarrow>
           map position (normalizeData words)
             = replicate (length words) (Vector3 NaN NaN NaN))
      \<and> fst (loadWordEmbeddings (Json words) st) = None
      \<and> console (snd (loadWordEmbeddings (Json words) st)) = console st
      \<and> loading (snd (loadWordEmbeddings (Json words) st)) = False
      \<and> wordData (snd (loadWordEmbeddings (Json words) st)) = normalizeData words"
proof (intro conjI impI)
  assume h: "words \<noteq> [] \<and> (\<forall>w \<in> set words. position w = Vector3 (Fin a) (Fin b) (Fin c))"
  then have n: "words \<noteq> []"
    and p: "\<forall>w \<in> set words. position w = Vector3 (Fin a) (Fin b) (Fin c)" by simp_all
  show "extent (boundingBox words) = Fin 0" by (rule degenerate_box(2)[OF n p])
  show "scale (boundingBox words) = PInf" by (rule degenerate_box(3)[OF n p])
  show "list_all nonfinite_vec (map position (normalizeData words))"
    by (rule degenerate_nonfinite[OF n p])
  show "map position (normalizeData words) = replicate (length words) (Vector3 NaN NaN NaN)"
    if "exact a \<and> exact (a + a) \<and> exact b \<and> exact (b + b) \<and> exact c \<and> exact (c + c)"
    using that by (intro degenerate_NaN[OF n p]) simp_all
qed (simp_all add: load_Json)

theorem normalizeData_unguarded_witness:
  "map position (normalizeData
      [\<lparr>word = ''a'', position = Vector3 (Fin 1) (Fin 2) (Fin 3),
         categories = [], similar_words = []\<rparr>,
       \<lparr>word = ''b'', position = Vector3 (Fin 1) (Fin 2) (Fin 3),
         categories = [], similar_words = []\<rparr>])
     = [Vector3 NaN NaN NaN, Vector3 NaN NaN NaN]
   \<and> scale (boundingBox
      [\<lparr>word = ''a'', position = Vector3 (Fin 1) (Fin 2) (Fin 3),
         categories = [], similar_words = []\<rparr>,
       \<lparr>word = ''b'', position = Vector3 (Fin 1) (Fin 2) (Fin 3),
         categories = [], similar_words = []\<rparr>]) = PInf
   \<and> fst (loadWordEmbeddings (Json
      [\<lparr>word = ''a'', position = Vector3 (Fin 1) (Fin 2) (Fin 3),
         categories = [], similar_words = []\<rparr>,
       \<lparr>word = ''b'', position = Vector3 (Fin 1) (Fin 2) (Fin 3),
         categories = [], similar_words = []\<rparr>]) (constructed :: char engine)) = None
   \<and> exact 1 \<and> exact (1 + 1) \<and> exact 2 \<and> exact (2 + 2) \<and> exact 3 \<and> exact (3 + 3)"
proof -
  let ?ws = "[\<lparr>word = ''a'', position = Vector3 (Fin 1) (Fin 2) (Fin 3),
         categories = [], similar_words = []\<rparr>,
       \<lparr>word = ''b'', position = Vector3 (Fin 1) (Fin 2) (Fin 3),
         categories = [], similar_words = []\<rparr>]"
  note t = normalizeData_unguarded [of ?ws 1 2 3 "constructed :: char engine"]
  have h1: "?ws \<noteq> [] \<and> (\<forall>w \<in> set ?ws. position w = Vector3 (Fin 1) (Fin 2) (Fin 3))"
    by simp
  have h2: "exact 1 \<and> exact (1 + 1) \<and> exact 2 \<and> exact (2 + 2) \<and> exact 3 \<and> exact (3 + 3)"
    by (simp add: exact_def round64_simps)
  from t h1 h2 have "map position (normalizeData ?ws)
      = replicate (length ?ws) (Vector3 NaN NaN NaN)" by blast
  then have n: "map position (normalizeData ?ws) = [Vector3 NaN NaN NaN, Vector3 NaN NaN NaN]"
    by (simp add: numeral_2_eq_2)
  from t h1 have s: "scale (boundingBox ?ws) = PInf"
    and l: "fst (loadWordEmbeddings (Json ?ws) (constructed :: char engine)) = None"
    by blast+
  from n s l h2 show ?thesis by blast
qed

text \<open>
  Claim C3 says that a dataset whose nodes share one position is reported as a
  normalisation error and that no coordinate is ever infinite or NaN. A dataset of one
  node at \<open>(1, 2, 3)\<close> is normalised to \<open>(NaN, NaN, NaN)\<close>, and the load that contains
  it ends without an error; a dataset of one node at \<open>(2 ^ 1023, 0, 0)\<close> is normalised
  to \<open>(-Infinity, NaN, NaN)\<close>.
\<close>

theorem normalizeData_degenerate_counterexample:
  "normalizeData
     [\<lparr>word = ''a'', position = Vector3 (Fin 1) (Fin 2) (Fin 3),
        categories = [], similar_words = []\<rparr>]
   = [\<lparr>word = ''a'', position = Vector3 NaN NaN NaN, categories = [], similar_words = []\<rparr>]
   \<and> \<not> isFinite NaN
   \<and> fst (loadWordEmbeddings
            (Json [\<lparr>word = ''a'', position = Vector3 (Fin 1) (Fin 2) (Fin 3),
                     categories = [], similar_words = []\<rparr>]) constructed) = None
   \<and> console (snd (loadWordEmbeddings
            (Json [\<lparr>word = ''a'', position = Vector3 (Fin 1) (Fin 2) (Fin 3),
                     categories = [], similar_words = []\<rparr>]) constructed)) = []
   \<and> map position (wordData (snd (loadWordEmbeddings
            (Json [\<lparr>word = ''a'', position = Vector3 (Fin 1) (Fin 2) (Fin 3),
                     categories = [], similar_words = []\<rparr>]) constructed)))
       = [Vector3 NaN NaN NaN]
   \<and> map position (normalizeData
        [\<lparr>word = ''a'', position = Vector3 (Fin (2 ^ 1023)) (Fin 0) (Fin 0),
           categories = [], similar_words = []\<rparr>])
       = [Vector3 NInf NaN NaN]"
proof -
  have a: "normalizeData
     [\<lparr>word = ''a'', position = Vector3 (Fin 1) (Fin 2) (Fin 3),
        categories = [], similar_words = []\<rparr>]
   = [\<lparr>word = ''a'', position = Vector3 NaN NaN NaN, categories = [], similar_words = []\<rparr>]"
    by (simp add: normalizeData_def boundingBox_def widen_def center_def scale_def extent_def
        Math_max3_def js_sub_def transform_def Let_def round64_simps)
  have o: "round64 (2 ^ 1023 + 2 ^ 1023) = PInf"
    using round64_overflow by simp
  have b: "map position (normalizeData
        [\<lparr>word = ''a'', position = Vector3 (Fin (2 ^ 1023)) (Fin 0) (Fin 0),
           categories = [], similar_words = []\<rparr>])
       = [Vector3 NInf NaN NaN]"
    using o
    by (simp add: normalizeData_def boundingBox_def widen_def center_def scale_def extent_def
        Math_max3_def js_sub_def transform_def Let_def round64_zero)
  show ?thesis
    using b by (simp add: a load_Json constructed_def)
qed

section \<open>Search\<close>










section \<open>Search highlighting of connections\<close>

lemma highlightLine_newLine:
  "highlightLine H (newLine w t n) = (newLine w t n)\<lparr>l_opacity := 0.02, l_linewidth := 1\<rparr>"
  by (simp add: highlightLine_def newLine_def getProp_def)

lemma semanticConnections_newLine:
  "l \<in> set (semanticConnections thr wd) \<Longrightarrow> \<exists>w t n. l = newLine w t n"
  by (auto simp: semanticConnections_def wordLines_def entryLines_def
        split: if_splits option.splits)

lemma highlightLine_semanticConnections:
  "map (highlightLine H) (semanticConnections thr wd)
     = map (\<lambda>l. l\<lparr>l_opacity := 0.02, l_linewidth := 1\<rparr>) (semanticConnections thr wd)"
proof (rule map_cong)
  fix l assume "l \<in> set (semanticConnections thr wd)"
  then obtain w t n where "l = newLine w t n"
    using semanticConnections_newLine by blast
  then show "highlightLine H l = l\<lparr>l_opacity := 0.02, l_linewidth := 1\<rparr>"
    by (simp add: highlightLine_newLine)
qed simp

text \<open>
  Claim C5 says that after a search a connection is bright (opacity 1.0) exactly when
  both of its ends are matched. \<^verbatim>\<open>createSemanticConnections\<close> stores the ends of a line
  as \<^verbatim>\<open>userData.source\<close> and \<^verbatim>\<open>userData.target\<close>, and \<^verbatim>\<open>applyHighlighting\<close>
  reads \<^verbatim>\<open>userData.from\<close> and \<^verbatim>\<open>userData.to\<close>, which no line has: no line is ever
  bright: whatever the set of highlighted words, every line that
  \<^verbatim>\<open>createSemanticConnections\<close> builds is dimmed to 0.02. In the scene of two words, the
  query \<open>al\<close> matches both words, and the one connection, which joins them, is dimmed to
  0.02.
\<close>

theorem applyHighlighting_dims_matched_edge:
  "highlightedWords (onSearchInput ''al'' two_word_scene) = {''alpha'', ''alps''}
   \<and> map edge (connections (onSearchInput ''al'' two_word_scene)) = [edgeOf ''alpha'' ''alps'']
   \<and> map l_opacity (connections (onSearchInput ''al'' two_word_scene)) = [0.02]
   \<and> map l_opacity (map (highlightLine H) (semanticConnections thr wd))
       = map (\<lambda>l. 0.02) (semanticConnections thr wd)"
  unfolding searched_scene_eq highlightLine_semanticConnections
  by (simp add: edge_def edgeOf_def getProp_def comp_def)

section \<open>Releasing the hover\<close>

lemma hovered_scene_eq:
  "snd (handleHover (Some 0) (onSearchInput ''al'' two_word_scene))
   = \<lparr> wordNodes =
        [\<lparr>m_userData = [(''word'', Str ''alpha''), (''categories'', StrList [])],
          m_emissiveIntensity = 0, m_opacity = 0.8, m_scale = 2\<rparr>,
         \<lparr>m_userData = [(''word'', Str ''alps''), (''categories'', StrList [])],
          m_emissiveIntensity = 1.5, m_opacity = 0.8, m_scale = 3\<rparr>],
       wordLabels =
        [\<lparr>s_userData = [], s_visible = False, s_scale = (75, 37.5, 1),
          s_color = Color white 1, s_opacity = 1\<rparr>,
         \<lparr>s_userData = [], s_visible = False, s_scale = (15, 7.5, 1),
          s_color = Color white 1, s_opacity = 1\<rparr>],
       connections =
        [\<lparr>l_userData = [(''source'', Str ''alpha''), (''target'', Str ''alps'')],
          l_points = (Vector3 (Fin (-250)) (Fin 0) (Fin 0), Vector3 (Fin 250) (Fin 0) (Fin 0)),
          l_color = Color green 50, l_opacity = 1, l_linewidth = 1\<rparr>],
       wordData =
        [\<lparr>word = ''alpha'', position = Vector3 (Fin (-250)) (Fin 0) (Fin 0),
              categories = [], similar_words = [(''alps'', 0.9)]\<rparr>,
         \<lparr>word = ''alps'', position = Vector3 (Fin 250) (Fin 0) (Fin 0),
              categories = [], similar_words = []\<rparr>],
       highlightedWords = {''alpha'', ''alps''}, searchQuery = ''al'', similarityThreshold = 0.55,
       hoveredNode = Some 0,
       sparks = [(Vector3 (Fin (-250)) (Fin 0) (Fin 0), Vector3 (Fin 250) (Fin 0) (Fin 0))],
       loading = False, console = [] \<rparr>"
  unfolding searched_scene_eq by (simp add: hover_defs)

text \<open>
  Claim C6, as the code has it. When the ray meets no sphere and a sphere \<open>h\<close> is
  hovered, \<^verbatim>\<open>handleHover\<close> calls \<^verbatim>\<open>resetNodeState\<close> and forgets the hovered
  sphere, whether a search query is active or not: the sphere \<open>h\<close> gets scale 1 and
  emissive intensity 0, its label gets the scale \<open>(15, 7.5, 1)\<close>, the green colour and
  opacity 0.7, and every connection gets the green colour and opacity 0.4. The other
  spheres and labels, the query and the set of highlighted words stay as they are, and the
  result does not depend on the query or on the highlighted words.
\<close>

theorem hover_release_resets:
  assumes "hoveredNode st = Some h"
  shows "handleHover None st = (None, (resetNodeState h st)\<lparr>hoveredNode := None\<rparr>)
     \<and> connections (snd (handleHover None st))
         = map (\<lambda>line. line\<lparr>l_color := Color green 1, l_opacity := 0.4\<rparr>) (connections st)
     \<and> wordNodes (snd (handleHover None st))
         = updateAt h (\<lambda>node. node\<lparr>m_scale := 1.0, m_emissiveIntensity := 0\<rparr>) (wordNodes st)
     \<and> wordLabels (snd (handleHover None st))
         = updateAt h
             (\<lambda>label. label\<lparr>s_scale := (15, 7.5, 1), s_color := Color green 1, s_opacity := 0.7\<rparr>)
             (wordLabels st)
     \<and> searchQuery (snd (handleHover None st)) = searchQuery st
     \<and> highlightedWords (snd (handleHover None st)) = highlightedWords st
     \<and> (\<forall>q H. snd (handleHover None (st\<lparr>highlightedWords := H, searchQuery := q\<rparr>))
            = (snd (handleHover None st))\<lparr>highlightedWords := H, searchQuery := q\<rparr>)"
  using assms by (simp add: handleHover_def resetNodeState_def)

theorem hover_release_resets_witness:
  "hoveredNode (snd (handleHover (Some 0) (onSearchInput ''al'' two_word_scene))) = Some 0
   \<and> map l_opacity (connections (snd (handleHover None
         (snd (handleHover (Some 0) (onSearchInput ''al'' two_word_scene)))))) = [0.4]
   \<and> map l_color (connections (snd (handleHover None
         (snd (handleHover (Some 0) (onSearchInput ''al'' two_word_scene)))))) = [Color green 1]
   \<and> map m_scale (wordNodes (snd (handleHover None
         (snd (handleHover (Some 0) (onSearchInput ''al'' two_word_scene)))))) = [1, 3]
   \<and> map s_opacity (wordLabels (snd (handleHover None
         (snd (handleHover (Some 0) (onSearchInput ''al'' two_word_scene)))))) = [0.7, 1]"
proof -
  let ?S = "snd (handleHover (Some 0) (onSearchInput ''al'' two_word_scene))"
  have h: "hoveredNode ?S = Some 0" unfolding hovered_scene_eq by simp
  note t = hover_release_resets [OF h]
  have c: "connections (snd (handleHover None ?S))
         = map (\<lambda>line. line\<lparr>l_color := Color green 1, l_opacity := 0.4\<rparr>) (connections ?S)"
    using t by blast
  have n: "wordNodes (snd (handleHover None ?S))
         = updateAt 0 (\<lambda>node. node\<lparr>m_scale := 1.0, m_emissiveIntensity := 0\<rparr>) (wordNodes ?S)"
    using t by blast
  have l: "wordLabels (snd (handleHover None ?S))
         = updateAt 0
             (\<lambda>label. label\<lparr>s_scale := (15, 7.5, 1), s_color := Color green 1, s_opacity := 0.7\<rparr>)
             (wordLabels ?S)"
    using t by blast
  show ?thesis
    unfolding c n l unfolding hovered_scene_eq by (simp add: updateAt_def)
qed

text \<open>
  Claim C6 says that releasing the hover while a query is active restores the search
  highlight exactly. In the scene of two words with the query \<open>al\<close>, hovering the first
  sphere and releasing it leaves the query in place, but the first sphere has scale 1 and
  emissive intensity 0 where the search had given it 3 and 1.5, and the connection has
  opacity 0.4 where the search had given it 0.02.
\<close>

theorem hover_release_counterexample:
  "searchQuery (snd (handleHover None (snd (handleHover (Some 0)
       (onSearchInput ''al'' two_word_scene))))) = ''al''
   \<and> map m_scale (wordNodes (onSearchInput ''al'' two_word_scene)) = [3, 3]
   \<and> map m_scale (wordNodes (snd (handleHover None (snd (handleHover (Some 0)
       (onSearchInput ''al'' two_word_scene)))))) = [1, 3]
   \<and> map m_emissiveIntensity (wordNodes (onSearchInput ''al'' two_word_scene)) = [1.5, 1.5]
   \<and> map m_emissiveIntensity (wordNodes (snd (handleHover None (snd (handleHover (Some 0)
       (onSearchInput ''al'' two_word_scene)))))) = [0, 1.5]
   \<and> map l_opacity (connections (onSearchInput ''al'' two_word_scene)) = [0.02]
   \<and> map l_opacity (connections (snd (handleHover None (snd (handleHover (Some 0)
       (onSearchInput ''al'' two_word_scene)))))) = [0.4]"
  unfolding hovered_scene_eq unfolding searched_scene_eq by (simp add: hover_defs)


section \<open>Hover\<close>

lemma pulseIntensity_bounds: "0.2 \<le> pulseIntensity now \<and> pulseIntensity now \<le> 0.8"
proof -
  have "- 1 \<le> sin (now * 0.001 * 2)" "sin (now * 0.001 * 2) \<le> 1" by simp_all
  then show ?thesis unfolding pulseIntensity_def by linarith
qed

lemma breathe_positive: "0 < l_opacity l \<Longrightarrow> 0 < l_opacity (breathe now l)"
  using pulseIntensity_bounds[of now] by (simp add: breathe_def)

lemma overload_positive: "0 < l_opacity (overload w l)"
  by (simp add: overload_def)

lemma connections_resetNodeState:
  "connections (resetNodeState h st)
     = map (\<lambda>line. line\<lparr>l_color := Color green 1, l_opacity := 0.4\<rparr>) (connections st)"
  by (simp add: resetNodeState_def)

lemma visible_resetNodeState: "edges_visible (resetNodeState h st)"
  by (simp add: edges_visible_def connections_resetNodeState list_all_iff)

lemma visible_triggerNeuralActivity:
  "edges_visible st \<Longrightarrow> edges_visible (snd (triggerNeuralActivity i st))"
  by (simp add: edges_visible_def triggerNeuralActivity_def Let_def list_all_iff overload_positive)

lemma visible_handleHover: "edges_visible st \<Longrightarrow> edges_visible (snd (handleHover hit st))"
proof -
  assume v: "edges_visible st"
  have upd: "edges_visible (s\<lparr>hoveredNode := a, wordNodes := b, wordLabels := c\<rparr>) = edges_visible s"
    for s a b c by (simp add: edges_visible_def)
  have upd1: "edges_visible (s\<lparr>hoveredNode := a\<rparr>) = edges_visible s" for s a by (simp add: edges_visible_def)
  show ?thesis
  proof (cases hit)
    case None
    then show ?thesis using v
      by (cases "hoveredNode st") (simp_all add: handleHover_def upd1 visible_resetNodeState)
  next
    case (Some object)
    show ?thesis
    proof (cases "hoveredNode st = Some object")
      case True
      then show ?thesis using v Some by (simp add: handleHover_def)
    next
      case False
      let ?st1 = "case hoveredNode st of Some h \<Rightarrow> resetNodeState h st | None \<Rightarrow> st"
      have "edges_visible ?st1" using v by (cases "hoveredNode st") (simp_all add: visible_resetNodeState)
      then have "edges_visible (snd (triggerNeuralActivity object
          (?st1\<lparr>hoveredNode := Some object,
                wordNodes := updateAt object (\<lambda>node. node\<lparr>m_scale := 2.0, m_emissiveIntensity := 0\<rparr>) (wordNodes ?st1),
                wordLabels := updateAt object
                                 (\<lambda>label. label\<lparr>s_scale := (75, 37.5, 1),
                                                 s_color := Color white 1,
                                                 s_opacity := 1.0\<rparr>) (wordLabels ?st1)\<rparr>)))"
        by (intro visible_triggerNeuralActivity) (simp add: upd)
      then show ?thesis using Some False by (simp add: handleHover_def Let_def)
    qed
  qed
qed

lemma visible_animate: "edges_visible st \<Longrightarrow> edges_visible (snd (animate now hit st))"
  unfolding animate_def
  by (rule visible_handleHover) (simp add: edges_visible_def list_all_iff breathe_positive)

lemma visible_onSearchInput: "edges_visible (onSearchInput v st)"
  by (simp add: onSearchInput_def performSearch_def Let_def edges_visible_def list_all_iff
      applyHighlighting_def resetHighlighting_def highlightLine_def)

lemma visible_step: "edges_visible st \<Longrightarrow> edges_visible (step ev st)"
  by (cases ev) (simp_all add: visible_animate visible_onSearchInput)

lemma visible_run: "edges_visible st \<Longrightarrow> edges_visible (run evs st)"
  unfolding run_def by (induction evs arbitrary: st) (simp_all add: visible_step)

lemma touches_reset:
  "touches w (line\<lparr>l_color := c, l_opacity := a\<rparr>) = touches w line"
  by (simp add: touches_def)

lemma handleHover_enter:
  assumes "hoveredNode st \<noteq> Some i" "i < length (wordData st)"
  shows "fst (handleHover (Some i) st) = None"
    and "hoveredNode (snd (handleHover (Some i) st)) = Some i"
    and "connections (snd (handleHover (Some i) st))
           = map (\<lambda>l. l\<lparr>l_color := (if touches (word (wordData st ! i)) l
                                      then Color green 50 else Color green 5),
                          l_opacity := (if touches (word (wordData st ! i)) l
                                        then 1.0 else 0.2)\<rparr>) (connections st)"
    and "sparks (snd (handleHover (Some i) st))
           = sparks st @ map l_points (filter (touches (word (wordData st ! i))) (connections st))"
proof -
  show "fst (handleHover (Some i) st) = None"
    using assms
    by (cases "hoveredNode st")
      (simp_all add: handleHover_def triggerNeuralActivity_def resetNodeState_def Let_def)
  show "hoveredNode (snd (handleHover (Some i) st)) = Some i"
    using assms
    by (cases "hoveredNode st")
      (simp_all add: handleHover_def triggerNeuralActivity_def resetNodeState_def Let_def)
  show "connections (snd (handleHover (Some i) st))
           = map (\<lambda>l. l\<lparr>l_color := (if touches (word (wordData st ! i)) l
                                      then Color green 50 else Color green 5),
                          l_opacity := (if touches (word (wordData st ! i)) l
                                        then 1.0 else 0.2)\<rparr>) (connections st)"
    using assms
    by (cases "hoveredNode st")
      (simp_all add: handleHover_def triggerNeuralActivity_def resetNodeState_def Let_def
        overload_def touches_reset comp_def)
  show "sparks (snd (handleHover (Some i) st))
           = sparks st @ map l_points (filter (touches (word (wordData st ! i))) (connections st))"
    using assms
    by (cases "hoveredNode st")
      (simp_all add: handleHover_def triggerNeuralActivity_def resetNodeState_def Let_def
        filter_map comp_def touches_reset)
qed

lemma five_word_scene_connections:
  "map edge (connections five_word_scene)
     = [edgeOf ''X'' ''Y'', edgeOf ''Z'' ''X'', edgeOf ''P'' ''Q'']"
  by (simp add: five_word_scene_def five_words_def load_defs edge_def edgeOf_def getProp_def)
text \<open>
  Claim C7. When the sphere of the word X becomes the hovered one, \<^verbatim>\<open>handleHover\<close>
  gives every connection whose source or target is X the overload colour (green times 50)
  and opacity 1.0, and spawns one spark along each of them; every other connection gets the
  dim colour (green times 5) and opacity 0.2, which is above 0. From then on, whatever
  frames and search inputs follow, no connection has opacity 0.
\<close>

theorem hover_overloads_touching_edges:
  assumes "hoveredNode st \<noteq> Some i" and "i < length (wordData st)"
  shows "fst (handleHover (Some i) st) = None
     \<and> hoveredNode (snd (handleHover (Some i) st)) = Some i
     \<and> map l_userData (connections (snd (handleHover (Some i) st)))
         = map l_userData (connections st)
     \<and> map l_color (connections (snd (handleHover (Some i) st)))
         = map (\<lambda>l. if touches (word (wordData st ! i)) l then Color green 50 else Color green 5)
             (connections st)
     \<and> map l_opacity (connections (snd (handleHover (Some i) st)))
         = map (\<lambda>l. if touches (word (wordData st ! i)) l then 1.0 else 0.2) (connections st)
     \<and> sparks (snd (handleHover (Some i) st))
         = sparks st @ map l_points (filter (touches (word (wordData st ! i))) (connections st))
     \<and> (\<forall>evs. edges_visible (run evs (snd (handleHover (Some i) st))))"
proof -
  note h = handleHover_enter[OF assms]
  have "edges_visible (snd (handleHover (Some i) st))"
    by (simp add: edges_visible_def h(3) list_all_iff)
  then have "\<forall>evs. edges_visible (run evs (snd (handleHover (Some i) st)))"
    by (simp add: visible_run)
  then show ?thesis
    by (simp add: h comp_def cong: if_cong)
qed


theorem hover_overloads_touching_edges_witness:
  "hoveredNode five_word_scene \<noteq> Some 0
   \<and> map edge (connections five_word_scene)
       = [edgeOf ''X'' ''Y'', edgeOf ''Z'' ''X'', edgeOf ''P'' ''Q'']
   \<and> map l_opacity (connections (snd (handleHover (Some 0) five_word_scene))) = [1, 1, 0.2]
   \<and> map l_color (connections (snd (handleHover (Some 0) five_word_scene)))
       = [Color green 50, Color green 50, Color green 5]
   \<and> length (sparks (snd (handleHover (Some 0) five_word_scene))) = 2
   \<and> edges_visible (run [Frame 0 (Some 0), SearchInput ''x'', Frame 16 None]
        (snd (handleHover (Some 0) five_word_scene)))"
proof -
  have h1: "hoveredNode five_word_scene \<noteq> Some 0"
    by (simp add: five_word_scene_def five_words_def load_defs)
  have h2: "0 < length (wordData five_word_scene)"
    by (simp add: five_word_scene_def five_words_def load_defs)
  note t = hover_overloads_touching_edges [OF h1 h2]
  have w: "word (wordData five_word_scene ! 0) = ''X''"
    by (simp add: five_word_scene_def five_words_def load_defs)
  have c: "map (touches ''X'') (connections five_word_scene) = [True, True, False]"
    by (simp add: five_word_scene_def five_words_def load_defs touches_def getProp_def)
  have m: "map (\<lambda>l. if touches ''X'' l then a else b) (connections five_word_scene)
             = map (\<lambda>t. if t then a else b) (map (touches ''X'') (connections five_word_scene))"
    for a b :: 'a by (simp add: comp_def)
  have f: "length (filter (touches ''X'') (connections five_word_scene))
             = length (filter id (map (touches ''X'') (connections five_word_scene)))"
    by (simp add: filter_map comp_def)
  have o: "map l_opacity (connections (snd (handleHover (Some 0) five_word_scene))) = [1, 1, 0.2]"
    using t by (simp add: w m c)
  have k: "map l_color (connections (snd (handleHover (Some 0) five_word_scene)))
       = [Color green 50, Color green 50, Color green 5]"
    using t by (simp add: w m c)
  have s: "length (sparks (snd (handleHover (Some 0) five_word_scene))) = 2"
    using t by (simp add: w f c) (simp add: five_word_scene_def load_defs)
  have v: "edges_visible (run [Frame 0 (Some 0), SearchInput ''x'', Frame 16 None]
        (snd (handleHover (Some 0) five_word_scene)))"
    using t by blast
  from h1 five_word_scene_connections o k s v show ?thesis by blast
qed

section \<open>Clearing the query\<close>

lemma trim_Nil: "trim [] = []"
  by (simp add: trim_def)

lemma toLowerCase_empty: "toLowerCase [] = []"
  by (simp add: toLowerCase_def)

lemma clear_query:
  "onSearchInput [] st = resetHighlighting (st\<lparr>searchQuery := [], highlightedWords := {}\<rparr>)"
  by (simp add: onSearchInput_def performSearch_def Let_def toLowerCase_empty trim_Nil)

lemma onSearchInput_cases:
  "onSearchInput v st = resetHighlighting (st\<lparr>searchQuery := trim (toLowerCase v), highlightedWords := {}\<rparr>)
   \<or> (\<exists>H. onSearchInput v st = applyHighlighting (st\<lparr>searchQuery := trim (toLowerCase v), highlightedWords := H\<rparr>))"
  by (auto simp: onSearchInput_def performSearch_def Let_def)

text \<open>
  Claim C8, as the code has it. Setting the query to any string and then to the empty
  string gives every sphere emissive intensity 1.5, opacity 0.9 and scale 1, makes every
  label visible and gives every connection opacity 0.4, whatever the first query was:
  these are the fixed values of \<^verbatim>\<open>resetHighlighting\<close>, the same as clearing the query
  at once. On a scene that has just been built, this gives back the scale of the spheres
  and the labels as they were created.
\<close>

theorem clear_query_resets:
  "wordNodes (onSearchInput [] (onSearchInput v st))
     = map (\<lambda>node. node\<lparr>m_emissiveIntensity := 1.5, m_opacity := 0.9, m_scale := 1\<rparr>)
         (wordNodes st)
   \<and> wordLabels (onSearchInput [] (onSearchInput v st))
     = map (\<lambda>label. label\<lparr>s_visible := True\<rparr>) (wordLabels st)
   \<and> map l_opacity (connections (onSearchInput [] (onSearchInput v st)))
     = map (\<lambda>line. 0.4) (connections st)
   \<and> map l_userData (connections (onSearchInput [] (onSearchInput v st)))
     = map l_userData (connections st)
   \<and> map l_color (connections (onSearchInput [] (onSearchInput v st)))
     = map l_color (connections st)
   \<and> highlightedWords (onSearchInput [] (onSearchInput v st)) = {}
   \<and> searchQuery (onSearchInput [] (onSearchInput v st)) = []
   \<and> wordNodes (onSearchInput [] (onSearchInput v st)) = wordNodes (onSearchInput [] st)
   \<and> wordLabels (onSearchInput [] (onSearchInput v st)) = wordLabels (onSearchInput [] st)
   \<and> map m_scale (wordNodes (onSearchInput [] (onSearchInput v
          (snd (loadWordEmbeddings (Json words) constructed)))))
       = map m_scale (wordNodes (snd (loadWordEmbeddings (Json words) constructed)))
   \<and> wordLabels (onSearchInput [] (onSearchInput v
          (snd (loadWordEmbeddings (Json words) constructed))))
       = wordLabels (snd (loadWordEmbeddings (Json words) constructed))"
proof -
  have general: "wordNodes (onSearchInput [] (onSearchInput v st))
     = map (\<lambda>node. node\<lparr>m_emissiveIntensity := 1.5, m_opacity := 0.9, m_scale := 1\<rparr>)
         (wordNodes st)
   \<and> wordLabels (onSearchInput [] (onSearchInput v st))
     = map (\<lambda>label. label\<lparr>s_visible := True\<rparr>) (wordLabels st)
   \<and> map l_opacity (connections (onSearchInput [] (onSearchInput v st)))
     = map (\<lambda>line. 0.4) (connections st)
   \<and> map l_userData (connections (onSearchInput [] (onSearchInput v st)))
     = map l_userData (connections st)
   \<and> map l_color (connections (onSearchInput [] (onSearchInput v st)))
     = map l_color (connections st)
   \<and> highlightedWords (onSearchInput [] (onSearchInput v st)) = {}
   \<and> searchQuery (onSearchInput [] (onSearchInput v st)) = []
   \<and> wordNodes (onSearchInput [] (onSearchInput v st)) = wordNodes (onSearchInput [] st)
   \<and> wordLabels (onSearchInput [] (onSearchInput v st)) = wordLabels (onSearchInput [] st)"
    for st
  proof -
  consider (r) "onSearchInput v st = resetHighlighting (st\<lparr>searchQuery := trim (toLowerCase v), highlightedWords := {}\<rparr>)"
    | (a) H where "onSearchInput v st = applyHighlighting (st\<lparr>searchQuery := trim (toLowerCase v), highlightedWords := H\<rparr>)"
    using onSearchInput_cases by blast
  then show ?thesis
  proof cases
    case r
    show ?thesis unfolding clear_query r
      by (simp add: resetHighlighting_def comp_def)
  next
    case a
    show ?thesis unfolding clear_query a
      by (simp add: resetHighlighting_def applyHighlighting_def highlightNode_def
          highlightLabel_def highlightLine_def comp_def Let_def)
  qed
qed
  let ?L = "snd (loadWordEmbeddings (Json words) constructed)"
  have n: "map m_scale (wordNodes (onSearchInput [] (onSearchInput v ?L)))
             = map m_scale (wordNodes ?L)"
    using general[of ?L] by (simp add: load_Json constructed_def comp_def newNode_def)
  have l: "wordLabels (onSearchInput [] (onSearchInput v ?L)) = wordLabels ?L"
    using general[of ?L] by (simp add: load_Json constructed_def comp_def newLabel_def)
  from general[of st] n l show ?thesis by blast
qed

text \<open>
  Claim C8 says that a search followed by clearing the query is the identity on the visual
  state of the scene as built. In the scene of two words, the spheres are created with
  emissive intensity 0 and opacity 1 and the connection with opacity 0.8; after the query
  \<open>al\<close> and then the empty query they have 1.5, 0.9 and 0.4.
\<close>

theorem clear_query_counterexample:
  "map m_emissiveIntensity (wordNodes two_word_scene) = [0, 0]
   \<and> map m_emissiveIntensity (wordNodes (onSearchInput [] (onSearchInput ''al'' two_word_scene)))
       = [1.5, 1.5]
   \<and> map m_opacity (wordNodes two_word_scene) = [1, 1]
   \<and> map m_opacity (wordNodes (onSearchInput [] (onSearchInput ''al'' two_word_scene)))
       = [0.9, 0.9]
   \<and> map l_opacity (connections two_word_scene) = [0.8]
   \<and> map l_opacity (connections (onSearchInput [] (onSearchInput ''al'' two_word_scene))) = [0.4]
   \<and> onSearchInput [] (onSearchInput ''al'' two_word_scene) \<noteq> two_word_scene"
proof -
  have a: "map m_emissiveIntensity (wordNodes (onSearchInput [] (onSearchInput ''al'' two_word_scene)))
       = [1.5, 1.5]"
    and b: "map m_opacity (wordNodes (onSearchInput [] (onSearchInput ''al'' two_word_scene)))
       = [0.9, 0.9]"
    and c: "map l_opacity (connections (onSearchInput [] (onSearchInput ''al'' two_word_scene))) = [0.4]"
    unfolding clear_query searched_scene_eq by (simp_all add: resetHighlighting_def)
  have d: "map m_emissiveIntensity (wordNodes two_word_scene) = [0, 0]"
    and e: "map m_opacity (wordNodes two_word_scene) = [1, 1]"
    and f: "map l_opacity (connections two_word_scene) = [0.8]"
    unfolding two_word_scene_eq by simp_all
  have "onSearchInput [] (onSearchInput ''al'' two_word_scene) \<noteq> two_word_scene"
    using c f by auto
  with a b c d e f show ?thesis by blast
qed

section \<open>Dataset loader\<close>

lemma loading_resetNodeState: "loading (resetNodeState h st) = loading st"
  by (simp add: resetNodeState_def)

lemma loading_handleHover: "loading (snd (handleHover hit st)) = loading st"
  by (cases hit; cases "hoveredNode st")
    (simp_all add: handleHover_def triggerNeuralActivity_def Let_def loading_resetNodeState)

lemma loading_step: "loading (step ev st) = loading st"
  by (cases ev)
    (simp_all add: animate_def loading_handleHover onSearchInput_def performSearch_def Let_def
      applyHighlighting_def resetHighlighting_def)

lemma loading_run: "loading (run evs st) = loading st"
  unfolding run_def by (induction evs arbitrary: st) (simp_all add: loading_step)

lemma load_never_rejects: "fst (loadWordEmbeddings r st) = None"
  by (cases r) (simp_all add: loadWordEmbeddings_def)

lemma load_malformed:
  "list_ex (\<lambda>r. r_position r = None) entries \<Longrightarrow>
   loadWordEmbeddings (Parsed entries) st
     = (None, st\<lparr>wordData := map held entries, console := console st @ [TypeError]\<rparr>)"
  by (simp add: loadWordEmbeddings_def)

text \<open>
  Claim C9, as the code has it. When \<^verbatim>\<open>fetch\<close> or \<^verbatim>\<open>response.json()\<close> rejects, or
  the parsed document has an entry without a position, \<^verbatim>\<open>loadWordEmbeddings\<close> catches
  the error and prints it with \<^verbatim>\<open>console.error\<close>; the promise it returns is never
  rejected, and the loading element keeps the display it had, whatever frames and search
  inputs follow. After a rejected fetch or parse nothing else of the engine has changed;
  after a document with an entry without a position, \<open>wordData\<close> holds the entries of
  the document, and no sphere, label or connection has been created. The loading element
  is hidden only at the end of a load that succeeds.
\<close>

theorem loadWordEmbeddings_swallows_failure:
  "fst (loadWordEmbeddings r st) = None
   \<and> loadWordEmbeddings FetchRejected st = (None, st\<lparr>console := console st @ [FetchFailed]\<rparr>)
   \<and> loadWordEmbeddings JsonRejected st = (None, st\<lparr>console := console st @ [JsonSyntaxError]\<rparr>)
   \<and> (list_ex (\<lambda>r. r_position r = None) entries \<longrightarrow>
        loadWordEmbeddings (Parsed entries) st
          = (None, st\<lparr>wordData := map held entries, console := console st @ [TypeError]\<rparr>)
        \<and> map word (wordData (snd (loadWordEmbeddings (Parsed entries) st)))
            = map r_word entries
        \<and> loading (run evs (snd (loadWordEmbeddings (Parsed entries) st))) = loading st)
   \<and> loading (run evs (snd (loadWordEmbeddings FetchRejected st))) = loading st
   \<and> loading (run evs (snd (loadWordEmbeddings JsonRejected st))) = loading st
   \<and> loading (snd (loadWordEmbeddings (Json words) st)) = False
   \<and> console (snd (loadWordEmbeddings (Json words) st)) = console st
   \<and> (\<not> list_ex (\<lambda>r. r_position r = None) entries \<longrightarrow>
        loadWordEmbeddings (Parsed entries) st
          = loadWordEmbeddings (Json (map held entries)) st)"
proof (intro conjI impI)
  show "fst (loadWordEmbeddings r st) = None" by (rule load_never_rejects)
next
  assume m: "list_ex (\<lambda>r. r_position r = None) entries"
  show "loadWordEmbeddings (Parsed entries) st
          = (None, st\<lparr>wordData := map held entries, console := console st @ [TypeError]\<rparr>)"
    by (rule load_malformed[OF m])
  show "map word (wordData (snd (loadWordEmbeddings (Parsed entries) st))) = map r_word entries"
    by (simp add: load_malformed[OF m] held_def comp_def)
  show "loading (run evs (snd (loadWordEmbeddings (Parsed entries) st))) = loading st"
    by (simp add: loading_run load_malformed[OF m])
qed (simp_all add: loading_run, simp_all add: loadWordEmbeddings_def build_def Let_def
      createWordNodes_def createWordLabels_def createSemanticConnections_def)

theorem loadWordEmbeddings_swallows_failure_witness:
  "list_ex (\<lambda>r. r_position r = None)
     [\<lparr>r_word = ''alpha'', r_position = Some (Vector3 (Fin 0) (Fin 0) (Fin 0)),
        r_categories = [], r_similar_words = [(''alps'', 0.9)]\<rparr>,
      \<lparr>r_word = ''alps'', r_position = None,
        r_categories = [], r_similar_words = []\<rparr>]
   \<and> loadWordEmbeddings (Parsed
     [\<lparr>r_word = ''alpha'', r_position = Some (Vector3 (Fin 0) (Fin 0) (Fin 0)),
        r_categories = [], r_similar_words = [(''alps'', 0.9)]\<rparr>,
      \<lparr>r_word = ''alps'', r_position = None,
        r_categories = [], r_similar_words = []\<rparr>]) constructed
     = (None, constructed
          \<lparr>wordData :=
             [\<lparr>word = ''alpha'', position = Vector3 (Fin 0) (Fin 0) (Fin 0),
                categories = [], similar_words = [(''alps'', 0.9)]\<rparr>,
              \<lparr>word = ''alps'', position = Vector3 NaN NaN NaN,
                categories = [], similar_words = []\<rparr>],
           console := [TypeError]\<rparr>)
   \<and> \<not> list_ex (\<lambda>r. r_position r = None)
     [\<lparr>r_word = ''alps'', r_position = Some (Vector3 (Fin 1) (Fin 2) (Fin 3)),
        r_categories = [], r_similar_words = []\<rparr>]
   \<and> loading (snd (loadWordEmbeddings (Parsed
     [\<lparr>r_word = ''alps'', r_position = Some (Vector3 (Fin 1) (Fin 2) (Fin 3)),
        r_categories = [], r_similar_words = []\<rparr>]) constructed)) = False"
proof -
  let ?es = "[\<lparr>r_word = ''alpha'', r_position = Some (Vector3 (Fin 0) (Fin 0) (Fin 0)),
        r_categories = [], r_similar_words = [(''alps'', 0.9)]\<rparr>,
      \<lparr>r_word = ''alps'', r_position = None,
        r_categories = [], r_similar_words = []\<rparr>]"
  let ?ok = "[\<lparr>r_word = ''alps'', r_position = Some (Vector3 (Fin 1) (Fin 2) (Fin 3)),
        r_categories = [], r_similar_words = []\<rparr>]"
  note t1 = loadWordEmbeddings_swallows_failure
    [of FetchRejected "constructed :: char engine" ?es "[]" "map held ?ok"]
  note t2 = loadWordEmbeddings_swallows_failure
    [of FetchRejected "constructed :: char engine" ?ok "[]" "map held ?ok"]
  have h1: "list_ex (\<lambda>r. r_position r = None) ?es" by simp
  have h2: "\<not> list_ex (\<lambda>r. r_position r = None) ?ok" by simp
  from t1 h1 have "loadWordEmbeddings (Parsed ?es) constructed
      = (None, constructed\<lparr>wordData := map held ?es,
                            console := console (constructed :: char engine) @ [TypeError]\<rparr>)"
    by blast
  then have a: "loadWordEmbeddings (Parsed ?es) constructed
     = (None, constructed
          \<lparr>wordData :=
             [\<lparr>word = ''alpha'', position = Vector3 (Fin 0) (Fin 0) (Fin 0),
                categories = [], similar_words = [(''alps'', 0.9)]\<rparr>,
              \<lparr>word = ''alps'', position = Vector3 NaN NaN NaN,
                categories = [], similar_words = []\<rparr>],
           console := [TypeError]\<rparr>)"
    by (simp add: held_def constructed_def)
  from t2 h2 have "loadWordEmbeddings (Parsed ?ok) constructed
      = loadWordEmbeddings (Json (map held ?ok)) (constructed :: char engine)"
    by blast
  moreover from t2 have "loading (snd (loadWordEmbeddings (Json (map held ?ok))
      (constructed :: char engine))) = False"
    by blast
  ultimately have b: "loading (snd (loadWordEmbeddings (Parsed ?ok) constructed)) = False"
    by simp
  from h1 a h2 b show ?thesis by blast
qed

text \<open>
  Claim C9 says that a failed load is surfaced to the caller and never leaves the loading
  indicator displayed. Starting from the constructed engine, with the loading element
  displayed, a rejected fetch, a rejected parse and a document whose one entry has no
  position all give the caller no error, and the loading element is still displayed, also
  after later frames and inputs.
\<close>

theorem loadWordEmbeddings_failure_counterexample:
  "fst (loadWordEmbeddings FetchRejected constructed) = None
   \<and> loading (snd (loadWordEmbeddings FetchRejected constructed)) = True
   \<and> console (snd (loadWordEmbeddings FetchRejected constructed)) = [FetchFailed]
   \<and> fst (loadWordEmbeddings JsonRejected constructed) = None
   \<and> loading (snd (loadWordEmbeddings JsonRejected constructed)) = True
   \<and> loading (run [Frame 0 None, Frame 16 None, SearchInput ''a'']
        (snd (loadWordEmbeddings JsonRejected constructed))) = True
   \<and> fst (loadWordEmbeddings (Parsed
        [\<lparr>r_word = ''alpha'', r_position = None,
           r_categories = [], r_similar_words = []\<rparr>]) constructed) = None
   \<and> console (snd (loadWordEmbeddings (Parsed
        [\<lparr>r_word = ''alpha'', r_position = None,
           r_categories = [], r_similar_words = []\<rparr>]) constructed)) = [TypeError]
   \<and> loading (run [Frame 0 None, SearchInput ''a''] (snd (loadWordEmbeddings (Parsed
        [\<lparr>r_word = ''alpha'', r_position = None,
           r_categories = [], r_similar_words = []\<rparr>]) constructed))) = True"
  by (simp add: loading_run) (simp add: loadWordEmbeddings_def constructed_def)

section \<open>Breathing opacity\<close>









end
